theory Spec2Isabelle
  imports Complex_Main "HOL-Library.AList"
begin

section \<open>The line-chart widget of pkg/components/linechart.go\<close>

text \<open>
  A shallow embedding of the widget state \<open>LineChartSkn\<close>, its public method surface
  and the coordinate mapping of its renderer.

  Conventions of the embedding.
  \<^item> A Go pointer is an \<open>option\<close>: \<open>None\<close> is the nil pointer. A Go \<open>error\<close> is an
    \<open>error option\<close>: \<open>None\<close> is the nil error.
  \<^item> A run-time panic (nil dereference, write to a nil map, index out of range) is the
    value \<open>Panic\<close> of the type \<open>result\<close>.
  \<^item> A Go map with string keys is an association list with distinct keys, or the nil
    map. The order of the list stands for the order in which \<open>range\<close> happens to visit
    the map, which Go leaves open; every statement below is about every list.
  \<^item> A \<open>float32\<close> coordinate or data value is a value of the type \<open>float32\<close> below:
    NaN or a number. Numbers are combined exactly, as reals; a NaN operand makes every
    result NaN and every comparison false, as in Go. Rounding and the infinities are
    outside the model.
  \<^item> Calls into the GUI toolkit that only repaint (\<open>Refresh\<close>, \<open>ExtendBaseWidget\<close>)
    do not touch the widget state and are left out; the toolkit values the code reads
    (\<open>theme.Padding()\<close>, \<open>fyne.MeasureText\<close>, the number formatting of \<open>fmt\<close>) are the
    fields of the record \<open>toolkit\<close>, taken as a parameter.
\<close>

subsection \<open>float32\<close>

text \<open>
  A \<open>float32\<close> is NaN or a number \<open>Fin x\<close>. The operators \<open>+\<close>, \<open>-\<close>, \<open>*\<close>, \<open>/\<close>,
  \<open><\<close> and \<open>\<le>\<close> on it are Go's: of two numbers, the exact result; with a NaN operand,
  NaN, and for a comparison false. Go divides a number by zero to an infinity or NaN; with
  the infinities outside the model the quotient by zero is NaN here. The widget divides by
  the constants 2, 14 and 100 only.
\<close>

datatype float32 = NaN | Fin real

instantiation float32 :: "{zero, one, plus, minus, times, inverse, ord}"
begin

definition zero_float32 :: float32 where
  "zero_float32 = Fin 0"

definition one_float32 :: float32 where
  "one_float32 = Fin 1"

definition plus_float32 :: "float32 \<Rightarrow> float32 \<Rightarrow> float32" where
  "plus_float32 x y = (case (x, y) of (Fin a, Fin b) \<Rightarrow> Fin (a + b) | _ \<Rightarrow> NaN)"

definition minus_float32 :: "float32 \<Rightarrow> float32 \<Rightarrow> float32" where
  "minus_float32 x y = (case (x, y) of (Fin a, Fin b) \<Rightarrow> Fin (a - b) | _ \<Rightarrow> NaN)"

definition times_float32 :: "float32 \<Rightarrow> float32 \<Rightarrow> float32" where
  "times_float32 x y = (case (x, y) of (Fin a, Fin b) \<Rightarrow> Fin (a * b) | _ \<Rightarrow> NaN)"

definition divide_float32 :: "float32 \<Rightarrow> float32 \<Rightarrow> float32" where
  "divide_float32 x y =
     (case (x, y) of (Fin a, Fin b) \<Rightarrow> if b = 0 then NaN else Fin (a / b) | _ \<Rightarrow> NaN)"

definition inverse_float32 :: "float32 \<Rightarrow> float32" where
  "inverse_float32 x = (case x of Fin a \<Rightarrow> if a = 0 then NaN else Fin (1 / a) | NaN \<Rightarrow> NaN)"

definition less_eq_float32 :: "float32 \<Rightarrow> float32 \<Rightarrow> bool" where
  "less_eq_float32 x y = (case (x, y) of (Fin a, Fin b) \<Rightarrow> a \<le> b | _ \<Rightarrow> False)"

definition less_float32 :: "float32 \<Rightarrow> float32 \<Rightarrow> bool" where
  "less_float32 x y = (case (x, y) of (Fin a, Fin b) \<Rightarrow> a < b | _ \<Rightarrow> False)"

instance ..

end

text \<open>Addition is associative, so the numerals \<open>2\<close>, \<open>14\<close>, \<open>110\<close> read as on the reals.\<close>

instance float32 :: numeral
proof
  fix a b c :: float32
  show "a + b + c = a + (b + c)"
    by (cases a; cases b; cases c) (simp_all add: plus_float32_def)
qed

subsection \<open>Toolkit types\<close>

record Position =
  X :: float32
  Y :: float32

record Size =
  Width :: float32
  Height :: float32

definition NewPos :: "float32 \<Rightarrow> float32 \<Rightarrow> Position" where
  "NewPos x y = \<lparr>X = x, Y = y\<rparr>"

definition NewSize :: "float32 \<Rightarrow> float32 \<Rightarrow> Size" where
  "NewSize w h = \<lparr>Width = w, Height = h\<rparr>"

text \<open>\<open>fyne.Position.IsZero\<close>: both coordinates are zero.\<close>

definition IsZero :: "Position \<Rightarrow> bool" where
  "IsZero p \<longleftrightarrow> X p = 0 \<and> Y p = 0"

text \<open>\<open>desktop.MouseButton\<close> and the two fields of \<open>desktop.MouseEvent\<close> the widget reads.\<close>

datatype MouseButton = MouseButtonPrimary | MouseButtonSecondary | MouseButtonTertiary

record MouseEvent =
  EvPosition :: Position
  Button :: MouseButton

text \<open>\<open>canvas.Line\<close> and \<open>canvas.Circle\<close>: the two corner positions the renderer writes.\<close>

record canvas_Line =
  Position1 :: Position
  Position2 :: Position

record canvas_Circle =
  CirclePosition1 :: Position
  CirclePosition2 :: Position

text \<open>
  What the code reads from the toolkit and from \<open>fmt\<close>: \<open>theme.Padding()\<close>, the
  measure of a text at the default size and style, the text \<open>fmt.Sprint\<close> gives a
  \<open>float32\<close>, and \<open>canvas.Circle.Resize\<close>.
\<close>

record toolkit =
  Padding :: float32
  MeasureText :: "string \<Rightarrow> Size"
  FormatFloat :: "float32 \<Rightarrow> string"
  CircleResize :: "canvas_Circle \<Rightarrow> Size \<Rightarrow> canvas_Circle"

text \<open>The decimal text of a non-negative \<open>int\<close>, as \<open>fmt.Sprint\<close> prints a slice index.\<close>

function Itoa :: "nat \<Rightarrow> string" where
  "Itoa n = (if n < 10 then [char_of (48 + n)]
             else Itoa (n div 10) @ [char_of (48 + n mod 10)])"
  by pat_completeness auto
termination
  by (relation "measure id") auto

declare Itoa.simps [simp del]

text \<open>\<open>theme.ColorNameForeground\<close>, the toolkit's name of the foreground colour.\<close>

definition ColorNameForeground :: string where
  "ColorNameForeground = ''foreground''"

subsection \<open>Results, errors, maps\<close>

datatype 'a result = Panic | Return 'a

text \<open>
  The errors the widget builds with \<open>fmt.Errorf\<close>, by their format and operands:
  \<^item> \<open>NoActiveWidget f\<close>: "f() no active widget";
  \<^item> \<open>LimitExceeded key limit count\<close>: "[key] data series datapoints limit exceeded.
    limit:%d, count:%d";
  \<^item> \<open>MustBeLarger new old\<close>: "newData must be larger[%d] than or equal to
    existing[%d]";
  \<^item> \<open>Truncated err key points limit\<close>: the constructor's "dataPoint contents exceeds the
    point count limit[Action: truncated leading]. Series: %s, points: %d, Limit: %d",
    written after the text of the error \<open>err\<close> so far.
\<close>

datatype error =
    NoActiveWidget string
  | LimitExceeded string int int
  | MustBeLarger int int
  | Truncated "error option" string int int

datatype 'v gomap = NilMap | GoMap "(string \<times> 'v) list"

text \<open>The entries a \<open>range\<close> loop visits; a nil map has none.\<close>

fun entries :: "'v gomap \<Rightarrow> (string \<times> 'v) list" where
  "entries NilMap = []"
| "entries (GoMap kvs) = kvs"

text \<open>\<open>len(m)\<close>.\<close>

definition map_len :: "'v gomap \<Rightarrow> int" where
  "map_len m = int (length (entries m))"

text \<open>\<open>m[key]\<close> for a map of slices: a missing key reads as the nil slice, of length 0.\<close>

definition map_get :: "'v list gomap \<Rightarrow> string \<Rightarrow> 'v list" where
  "map_get m key = (case map_of (entries m) key of None \<Rightarrow> [] | Some points \<Rightarrow> points)"

text \<open>\<open>m[key] = v\<close>: a write to the nil map panics.\<close>

fun map_set :: "'v gomap \<Rightarrow> string \<Rightarrow> 'v \<Rightarrow> 'v gomap result" where
  "map_set NilMap key v = Panic"
| "map_set (GoMap kvs) key v = Return (GoMap (AList.update key v kvs))"

text \<open>A list stands for a Go map when no key occurs twice.\<close>

definition distinct_keys :: "'v gomap \<Rightarrow> bool" where
  "distinct_keys m \<longleftrightarrow> distinct (map fst (entries m))"

subsection \<open>Data points\<close>

text \<open>
  Modelled from the spec: the declaration of the interface \<open>SknChartDatapoint\<close> and its
  implementation are not among the sources. The glossary has a data point as a
  (value, color, timestamp) tuple; the widget reads these through \<open>Value()\<close>,
  \<open>ColorName()\<close> and \<open>Timestamp()\<close>, and reads and writes the two corners of the point's
  marker through \<open>MarkerPosition()\<close> and \<open>SetMarkerPosition\<close>.
\<close>

record SknChartDatapoint =
  Value :: float32
  ColorName :: string
  Timestamp :: string
  MarkerTop :: Position
  MarkerBottom :: Position

definition MarkerPosition :: "SknChartDatapoint \<Rightarrow> Position \<times> Position" where
  "MarkerPosition point = (MarkerTop point, MarkerBottom point)"

definition SetMarkerPosition :: "Position \<Rightarrow> Position \<Rightarrow> SknChartDatapoint \<Rightarrow> SknChartDatapoint" where
  "SetMarkerPosition tp bt point = point\<lparr>MarkerTop := tp, MarkerBottom := bt\<rparr>"

type_synonym series_map = "SknChartDatapoint list gomap"

subsection \<open>Slice helpers of pkg/commons\<close>

text \<open>
  Modelled from the spec: \<open>commons.RemoveIndexFromSlice\<close> is not among the sources. The
  constructor calls it with index 0 to truncate the leading points of a series, that is
  to remove the oldest point; the model removes the element at the given index.
\<close>

definition RemoveIndexFromSlice :: "nat \<Rightarrow> 'a list \<Rightarrow> 'a list" where
  "RemoveIndexFromSlice index slice = take index slice @ drop (Suc index) slice"

text \<open>
  Modelled from the spec: \<open>commons.ShiftSlice\<close> is not among the sources. The rolling
  window evicts the oldest point when the limit is reached: point 0 is rolled out, making
  room for the new point, which goes to the end.
\<close>

definition ShiftSlice :: "'a \<Rightarrow> 'a list \<Rightarrow> 'a list" where
  "ShiftSlice newData slice = RemoveIndexFromSlice 0 slice @ [newData]"

subsection \<open>The widget state\<close>

text \<open>
  The struct \<open>LineChartSkn\<close>, field by field, without the embedded toolkit parts
  (\<open>BaseWidget\<close>, \<open>Hoverable\<close>, \<open>Mouseable\<close>). The canvas objects the widget lists
  are toolkit objects, of a type left open.
\<close>

typedecl CanvasObject

record LineChartSkn =
  DataPointXLimit :: int
  EnableDataPointMarkers :: bool
  EnableHorizGridLines :: bool
  EnableVertGridLines :: bool
  EnableMousePointDisplay :: bool
  TopLeftLabel :: string
  TopCenteredLabel :: string
  TopRightLabel :: string
  LeftMiddleLabel :: string
  RightMiddleLabel :: string
  BottomLeftLabel :: string
  BottomCenteredLabel :: string
  BottomRightLabel :: string
  mouseDisplayStr :: string
  mouseDisplayPosition :: "Position option"
  mouseDisplayFrameColor :: string
  dataPoints :: "series_map option"
  dataPointScale :: Size
  minSize :: Size
  objects :: "CanvasObject list"

subsection \<open>NewSknLineChart\<close>

text \<open>The inner loop \<open>for len(points) > dpl { points = RemoveIndexFromSlice(0, points) }\<close>.\<close>

function truncate_leading :: "nat \<Rightarrow> 'a list \<Rightarrow> 'a list" where
  "truncate_leading dpl points =
     (if length points > dpl then truncate_leading dpl (RemoveIndexFromSlice 0 points)
      else points)"
  by pat_completeness auto
termination
  by (relation "measure (\<lambda>(dpl, points). length points)")
     (auto simp: RemoveIndexFromSlice_def)

declare truncate_leading.simps [simp del]

text \<open>
  One iteration of \<open>for key, points := range *dataPoints\<close>, on the map and the error
  accumulated so far. For a nil map the loop body never runs, so the write is to a map
  that exists.
\<close>

definition truncate_series ::
  "nat \<Rightarrow> string \<times> SknChartDatapoint list \<Rightarrow>
   (string \<times> SknChartDatapoint list) list \<times> error option \<Rightarrow>
   (string \<times> SknChartDatapoint list) list \<times> error option" where
  "truncate_series dpl entry acc =
     (case (entry, acc) of ((key, points), (kvs, err)) \<Rightarrow>
        if length points > dpl then
          let err1 = Some (Truncated err key (int (length points)) (int dpl));
              points' = truncate_leading dpl points;
              kvs' = AList.update key points' kvs;
              err2 = Some (Truncated err1 key (int (length points')) (int dpl))
          in (kvs', err2)
        else (kvs, err))"

definition truncate_all ::
  "nat \<Rightarrow> series_map \<Rightarrow> series_map \<times> error option" where
  "truncate_all dpl m =
     (case m of
        NilMap \<Rightarrow> (NilMap, None)
      | GoMap kvs \<Rightarrow> (case fold (truncate_series dpl) kvs (kvs, None) of
                       (kvs', err) \<Rightarrow> (GoMap kvs', err)))"

definition NewSknLineChart ::
  "toolkit \<Rightarrow> string \<Rightarrow> string \<Rightarrow> series_map option \<Rightarrow>
   (LineChartSkn option \<times> error option) result" where
  "NewSknLineChart tk topTitle bottomTitle dataPoints_arg =
     (let dpl = (120::nat) in
      case dataPoints_arg of
        None \<Rightarrow> Panic
      | Some m \<Rightarrow>
          (case truncate_all dpl m of (m', err) \<Rightarrow>
             Return (Some \<lparr>
               DataPointXLimit = int dpl,
               EnableDataPointMarkers = True,
               EnableHorizGridLines = True,
               EnableVertGridLines = True,
               EnableMousePointDisplay = True,
               TopLeftLabel = ''top left desc'',
               TopCenteredLabel = topTitle,
               TopRightLabel = '''',
               LeftMiddleLabel = ''left middle desc'',
               RightMiddleLabel = ''right middle desc'',
               BottomLeftLabel = ''bottom left desc'',
               BottomCenteredLabel = bottomTitle,
               BottomRightLabel = ''bottom right desc'',
               mouseDisplayStr = '''',
               mouseDisplayPosition = Some \<lparr>X = 0, Y = 0\<rparr>,
               mouseDisplayFrameColor = ColorNameForeground,
               dataPoints = Some m',
               dataPointScale = NewSize (Fin (real dpl)) 110,
               minSize = NewSize (400 + Padding tk * 4) (300 + Padding tk * 4),
               objects = []\<rparr>, err)))"

subsection \<open>The data-mutation methods\<close>

text \<open>
  \<open>ReplaceAllDataSeries\<close>. The receiver is dereferenced at once, so it is taken non-nil.
  The loop returns at the first series, in the order of the visit, that is longer than
  the limit.
\<close>

definition ReplaceAllDataSeries ::
  "LineChartSkn \<Rightarrow> series_map option \<Rightarrow> (LineChartSkn \<times> error option) result" where
  "ReplaceAllDataSeries w newData =
     (case dataPoints w of
        None \<Rightarrow> Return (w, Some (NoActiveWidget ''ReplaceAllDataSeries''))
      | Some old \<Rightarrow>
          (case newData of
             None \<Rightarrow> Panic
           | Some new \<Rightarrow>
               if map_len old \<le> map_len new then
                 (case find (\<lambda>(key, points). int (length points) > DataPointXLimit w)
                         (entries new) of
                    Some (key, points) \<Rightarrow>
                      Return (w, Some (LimitExceeded key (DataPointXLimit w)
                                         (int (length points))))
                  | None \<Rightarrow> Return (w\<lparr>dataPoints := newData\<rparr>, None))
               else Return (w, Some (MustBeLarger (map_len new) (map_len old)))))"

text \<open>\<open>ApplyNewDataSeries\<close>; the receiver may be nil.\<close>

definition ApplyNewDataSeries ::
  "LineChartSkn option \<Rightarrow> string \<Rightarrow> SknChartDatapoint list \<Rightarrow>
   (LineChartSkn option \<times> error option) result" where
  "ApplyNewDataSeries wp seriesName newSeries =
     (case wp of
        None \<Rightarrow> Return (None, Some (NoActiveWidget ''ApplyNewDataSeries''))
      | Some w \<Rightarrow>
          if int (length newSeries) < DataPointXLimit w then
            (case dataPoints w of
               None \<Rightarrow> Panic
             | Some m \<Rightarrow>
                 (case map_set m seriesName newSeries of
                    Panic \<Rightarrow> Panic
                  | Return m' \<Rightarrow> Return (Some (w\<lparr>dataPoints := Some m'\<rparr>), None)))
          else Return (Some w, Some (LimitExceeded seriesName (DataPointXLimit w)
                                       (int (length newSeries)))))"

text \<open>\<open>ApplySingleDataPoint\<close>; the receiver may be nil.\<close>

definition ApplySingleDataPoint ::
  "LineChartSkn option \<Rightarrow> string \<Rightarrow> SknChartDatapoint \<Rightarrow> LineChartSkn option result" where
  "ApplySingleDataPoint wp seriesName newDataPoint =
     (case wp of
        None \<Rightarrow> Return None
      | Some w \<Rightarrow>
          (case dataPoints w of
             None \<Rightarrow> Panic
           | Some m \<Rightarrow>
               (case map_set m seriesName
                       (if int (length (map_get m seriesName)) < DataPointXLimit w
                        then map_get m seriesName @ [newDataPoint]
                        else ShiftSlice newDataPoint (map_get m seriesName)) of
                  Panic \<Rightarrow> Panic
                | Return m' \<Rightarrow> Return (Some (w\<lparr>dataPoints := Some m'\<rparr>)))))"

subsection \<open>Getters and setters\<close>

text \<open>These methods dereference the receiver without a check; it is taken non-nil.\<close>

definition SetMinSize :: "LineChartSkn \<Rightarrow> Size \<Rightarrow> LineChartSkn" where
  "SetMinSize w s = w\<lparr>minSize := s\<rparr>"

definition GetTopLeftLabel :: "LineChartSkn \<Rightarrow> string" where
  "GetTopLeftLabel w = TopLeftLabel w"

definition GetTitle :: "LineChartSkn \<Rightarrow> string" where
  "GetTitle w = TopCenteredLabel w"

definition IsDataPointMarkersEnabled :: "LineChartSkn \<Rightarrow> bool" where
  "IsDataPointMarkersEnabled w = EnableDataPointMarkers w"

definition IsHorizGridLinesEnabled :: "LineChartSkn \<Rightarrow> bool" where
  "IsHorizGridLinesEnabled w = EnableHorizGridLines w"

definition IsVertGridLinesEnabled :: "LineChartSkn \<Rightarrow> bool" where
  "IsVertGridLinesEnabled w = EnableVertGridLines w"

definition IsMousePointDisplayEnabled :: "LineChartSkn \<Rightarrow> bool" where
  "IsMousePointDisplayEnabled w = EnableMousePointDisplay w"

definition GetTopRightLabel :: "LineChartSkn \<Rightarrow> string" where
  "GetTopRightLabel w = TopRightLabel w"

definition GetMiddleLeftLabel :: "LineChartSkn \<Rightarrow> string" where
  "GetMiddleLeftLabel w = LeftMiddleLabel w"

definition GetMiddleRightLabel :: "LineChartSkn \<Rightarrow> string" where
  "GetMiddleRightLabel w = RightMiddleLabel w"

definition GetBottomLeftLabel :: "LineChartSkn \<Rightarrow> string" where
  "GetBottomLeftLabel w = BottomLeftLabel w"

definition GetBottomCenteredLabel :: "LineChartSkn \<Rightarrow> string" where
  "GetBottomCenteredLabel w = BottomCenteredLabel w"

definition GetBottomRightLabel :: "LineChartSkn \<Rightarrow> string" where
  "GetBottomRightLabel w = BottomRightLabel w"

definition SetTopLeftLabel :: "LineChartSkn \<Rightarrow> string \<Rightarrow> LineChartSkn" where
  "SetTopLeftLabel w newValue = w\<lparr>TopLeftLabel := newValue\<rparr>"

definition SetTitle :: "LineChartSkn \<Rightarrow> string \<Rightarrow> LineChartSkn" where
  "SetTitle w newValue = w\<lparr>TopCenteredLabel := newValue\<rparr>"

definition SetTopRightLabel :: "LineChartSkn \<Rightarrow> string \<Rightarrow> LineChartSkn" where
  "SetTopRightLabel w newValue = w\<lparr>TopRightLabel := newValue\<rparr>"

definition SetMiddleLeftLabel :: "LineChartSkn \<Rightarrow> string \<Rightarrow> LineChartSkn" where
  "SetMiddleLeftLabel w newValue = w\<lparr>LeftMiddleLabel := newValue\<rparr>"

definition SetMiddleRightLabel :: "LineChartSkn \<Rightarrow> string \<Rightarrow> LineChartSkn" where
  "SetMiddleRightLabel w newValue = w\<lparr>RightMiddleLabel := newValue\<rparr>"

definition SetBottomLeftLabel :: "LineChartSkn \<Rightarrow> string \<Rightarrow> LineChartSkn" where
  "SetBottomLeftLabel w newValue = w\<lparr>BottomLeftLabel := newValue\<rparr>"

definition SetBottomRightLabel :: "LineChartSkn \<Rightarrow> string \<Rightarrow> LineChartSkn" where
  "SetBottomRightLabel w newValue = w\<lparr>BottomRightLabel := newValue\<rparr>"

definition SetBottomCenteredLabel :: "LineChartSkn \<Rightarrow> string \<Rightarrow> LineChartSkn" where
  "SetBottomCenteredLabel w newValue = w\<lparr>BottomCenteredLabel := newValue\<rparr>"

definition SetDataPointMarkers :: "LineChartSkn \<Rightarrow> bool \<Rightarrow> LineChartSkn" where
  "SetDataPointMarkers w enable = w\<lparr>EnableDataPointMarkers := enable\<rparr>"

definition SetHorizGridLines :: "LineChartSkn \<Rightarrow> bool \<Rightarrow> LineChartSkn" where
  "SetHorizGridLines w enable = w\<lparr>EnableHorizGridLines := enable\<rparr>"

definition SetVertGridLines :: "LineChartSkn \<Rightarrow> bool \<Rightarrow> LineChartSkn" where
  "SetVertGridLines w enable = w\<lparr>EnableVertGridLines := enable\<rparr>"

definition SetMousePointDisplay :: "LineChartSkn \<Rightarrow> bool \<Rightarrow> LineChartSkn" where
  "SetMousePointDisplay w enable = w\<lparr>EnableMousePointDisplay := enable\<rparr>"

subsection \<open>Mouse events\<close>

text \<open>\<open>MouseDown\<close>; receiver and event are taken non-nil, as the toolkit delivers them.\<close>

definition MouseDown :: "LineChartSkn \<Rightarrow> MouseEvent \<Rightarrow> LineChartSkn" where
  "MouseDown w me =
     (if Button me = MouseButtonSecondary then
        w\<lparr>EnableDataPointMarkers := \<not> EnableDataPointMarkers w\<rparr>
      else if Button me = MouseButtonPrimary then
        w\<lparr>EnableMousePointDisplay := \<not> EnableMousePointDisplay w\<rparr>
      else w)"

text \<open>
  \<open>enableMouseContainer\<close>. \<open>strings.Split(value, "[")[0]\<close> is the text before the
  first bracket.
\<close>

definition enableMouseContainer ::
  "toolkit \<Rightarrow> LineChartSkn \<Rightarrow> string \<Rightarrow> string \<Rightarrow> Position \<Rightarrow> LineChartSkn" where
  "enableMouseContainer tk w val frameColor mousePosition =
     (let parts0 = takeWhile (\<lambda>c. c \<noteq> CHR ''['') val;
          ts = MeasureText tk parts0;
          mp = \<lparr>X = X mousePosition - (Width ts / 2),
                Y = Y mousePosition - (3 * Height ts) - Padding tk\<rparr>
      in w\<lparr>mouseDisplayStr := val,
           mouseDisplayFrameColor := frameColor,
           mouseDisplayPosition := Some mp\<rparr>)"

text \<open>
  The text \<open>MouseMoved\<close> composes with \<open>fmt.Sprint\<close> for the point at index \<open>idx\<close> of
  the series \<open>key\<close>. Every second operand is a string, so \<open>Sprint\<close> adds no space.
\<close>

definition mouseValue :: "toolkit \<Rightarrow> string \<Rightarrow> nat \<Rightarrow> SknChartDatapoint \<Rightarrow> string" where
  "mouseValue tk key idx point =
     '' Series: '' @ key @ '', Index: '' @ Itoa idx @ '', Value: '' @
     FormatFloat tk (Value point) @ '' [ '' @ Timestamp point @ '' ]''"

text \<open>The hit test of \<open>MouseMoved\<close> for one point.\<close>

definition mouseOver :: "Position \<Rightarrow> SknChartDatapoint \<Rightarrow> bool" where
  "mouseOver pos point =
     (case MarkerPosition point of (tp, bt) \<Rightarrow>
        \<not> IsZero pos \<and> \<not> IsZero tp \<and>
        X pos \<ge> X tp \<and> X pos \<le> X bt \<and> Y pos \<ge> Y tp \<and> Y pos \<le> Y bt)"

text \<open>The inner loop \<open>for idx, point := range points\<close> of \<open>MouseMoved\<close>, from index \<open>idx\<close>.\<close>

fun MouseMoved_points ::
  "toolkit \<Rightarrow> MouseEvent \<Rightarrow> string \<Rightarrow> nat \<Rightarrow> SknChartDatapoint list \<Rightarrow>
   LineChartSkn \<Rightarrow> LineChartSkn" where
  "MouseMoved_points tk me key idx [] w = w"
| "MouseMoved_points tk me key idx (point # rest) w =
     MouseMoved_points tk me key (Suc idx) rest
       (if mouseOver (EvPosition me) point then
          enableMouseContainer tk w (mouseValue tk key idx point) (ColorName point)
            (EvPosition me)
        else w)"

definition MouseMoved :: "toolkit \<Rightarrow> LineChartSkn \<Rightarrow> MouseEvent \<Rightarrow> LineChartSkn result" where
  "MouseMoved tk w me =
     (if \<not> EnableMousePointDisplay w then Return w
      else case dataPoints w of
             None \<Rightarrow> Panic
           | Some m \<Rightarrow>
               Return (fold (\<lambda>(key, points). MouseMoved_points tk me key 0 points)
                         (entries m) w))"

subsection \<open>The renderer: the data points of Layout\<close>

text \<open>
  The fields of \<open>sknLineChartRenderer\<close> the data-point loop of \<open>Layout\<close> touches. The
  renderer's own map of lines is called \<open>dataPoints\<close> in the source, like the widget's
  field.
\<close>

record sknLineChartRenderer =
  widget :: LineChartSkn
  xInc :: float32
  yInc :: float32
  dataPoints_r :: "canvas_Line list gomap"
  dataPointMarkers :: "canvas_Circle list gomap"

text \<open>
  Lines, circles and data points are held by reference: the loop writes through the
  reference and leaves the maps as they are. \<open>map_store\<close> puts the written slice back
  under a key the map has, and adds no key.
\<close>

fun map_store :: "'v gomap \<Rightarrow> string \<Rightarrow> 'v \<Rightarrow> 'v gomap" where
  "map_store NilMap key v = NilMap"
| "map_store (GoMap kvs) key v = GoMap (AList.map_entry key (\<lambda>_. v) kvs)"

text \<open>
  The loop \<open>for idx, point := range data\<close> over one series, from index \<open>idx\<close>, with the
  lines and markers of that series. \<open>hgt\<close> is \<open>dataPointScale.Height\<close>. An index
  beyond the lines or the markers is a panic.
\<close>

fun Layout_series ::
  "toolkit \<Rightarrow> float32 \<Rightarrow> float32 \<Rightarrow> float32 \<Rightarrow> float32 \<Rightarrow> float32 \<Rightarrow> nat \<Rightarrow>
   Position \<Rightarrow>
   SknChartDatapoint list \<Rightarrow> canvas_Line list \<Rightarrow> canvas_Circle list \<Rightarrow>
   (SknChartDatapoint list \<times> canvas_Line list \<times> canvas_Circle list) result" where
  "Layout_series tk xp yp xScale yScale hgt idx lastPoint [] lines markers =
     Return ([], lines, markers)"
| "Layout_series tk xp yp xScale yScale hgt idx lastPoint (point # rest) lines markers =
     (let dp = (if Value point > hgt then hgt
                else if Value point < 0 then 0
                else Value point);
          yy = yp - (dp * yScale);
          xx = xp + (Fin (real idx) * xScale);
          thisPoint = NewPos xx yy;
          lastPoint1 = (if idx = 0 then lastPoint\<lparr>Y := yy\<rparr> else lastPoint)
      in if idx \<ge> length lines then Panic
         else
           let lines1 = lines[idx := (lines ! idx)\<lparr>Position1 := thisPoint,
                                                     Position2 := lastPoint1\<rparr>];
               zt = NewPos (X thisPoint - 2) (Y thisPoint - 2)
           in if idx \<ge> length markers then Panic
              else
                let zb = NewPos (X thisPoint + 2) (Y thisPoint + 2);
                    dpm = (markers ! idx)\<lparr>CirclePosition1 := zt, CirclePosition2 := zb\<rparr>;
                    point1 = SetMarkerPosition zt zb point;
                    markers1 = markers[idx := CircleResize tk dpm (NewSize 5 5)]
                in case Layout_series tk xp yp xScale yScale hgt (Suc idx) thisPoint rest
                          lines1 markers1 of
                     Panic \<Rightarrow> Panic
                   | Return (rest1, lines2, markers2) \<Rightarrow>
                       Return (point1 # rest1, lines2, markers2))"

text \<open>One iteration of \<open>for key, data := range *r.widget.dataPoints\<close>.\<close>

definition Layout_entry ::
  "toolkit \<Rightarrow> float32 \<Rightarrow> float32 \<Rightarrow> float32 \<Rightarrow> float32 \<Rightarrow>
   string \<times> SknChartDatapoint list \<Rightarrow>
   sknLineChartRenderer result \<Rightarrow> sknLineChartRenderer result" where
  "Layout_entry tk xp yp xScale yScale entry acc =
     (case (entry, acc) of
        (_, Panic) \<Rightarrow> Panic
      | ((key, data), Return r) \<Rightarrow>
          (case Layout_series tk xp yp xScale yScale (Height (dataPointScale (widget r))) 0
                  (NewPos xp yp) data
                  (map_get (dataPoints_r r) key) (map_get (dataPointMarkers r) key) of
             Panic \<Rightarrow> Panic
           | Return (data1, lines1, markers1) \<Rightarrow>
               Return (r\<lparr>
                 widget := (widget r)\<lparr>dataPoints :=
                   map_option (\<lambda>m. map_store m key data1) (dataPoints (widget r))\<rparr>,
                 dataPoints_r := map_store (dataPoints_r r) key lines1,
                 dataPointMarkers := map_store (dataPointMarkers r) key markers1\<rparr>)))"

text \<open>
  \<open>Layout\<close>, from its first line to the end of the data-point loop: the increments,
  the scales, and the loop over the series. The grid lines, the labels and the text
  boxes, which \<open>Layout\<close> places before and after, are toolkit objects outside this
  model.
\<close>

definition Layout :: "toolkit \<Rightarrow> sknLineChartRenderer \<Rightarrow> Size \<Rightarrow> sknLineChartRenderer result" where
  "Layout tk r s =
     (let r1 = r\<lparr>xInc := (Width s - Padding tk) / 14, yInc := (Height s - Padding tk) / 14\<rparr>;
          xp = xInc r1;
          yp = yInc r1 * 12;
          yScale = (yInc r1 * 10) / 100;
          xScale = (xInc r1 * 10) / 100
      in case dataPoints (widget r1) of
           None \<Rightarrow> Panic
         | Some m \<Rightarrow> fold (Layout_entry tk xp yp xScale yScale) (entries m) (Return r1))"

subsection \<open>Sequences of data mutations\<close>

text \<open>
  The three public data-mutation calls, as values, and a run of them on a widget. A call
  on the widget \<open>w\<close> passes the receiver \<open>Some w\<close> and gets it back; the returned errors
  are dropped, as a caller may; a panic ends the run.
\<close>

datatype mutation =
    Replace "series_map option"
  | ApplySeries string "SknChartDatapoint list"
  | ApplyPoint string SknChartDatapoint

fun mutate :: "mutation \<Rightarrow> LineChartSkn \<Rightarrow> LineChartSkn result" where
  "mutate (Replace newData) w =
     (case ReplaceAllDataSeries w newData of
        Panic \<Rightarrow> Panic
      | Return (w', err) \<Rightarrow> Return w')"
| "mutate (ApplySeries seriesName newSeries) w =
     (case ApplyNewDataSeries (Some w) seriesName newSeries of
        Panic \<Rightarrow> Panic
      | Return (wp, err) \<Rightarrow> Return (case wp of None \<Rightarrow> w | Some w' \<Rightarrow> w'))"
| "mutate (ApplyPoint seriesName newDataPoint) w =
     (case ApplySingleDataPoint (Some w) seriesName newDataPoint of
        Panic \<Rightarrow> Panic
      | Return wp \<Rightarrow> Return (case wp of None \<Rightarrow> w | Some w' \<Rightarrow> w'))"

fun mutations :: "mutation list \<Rightarrow> LineChartSkn \<Rightarrow> LineChartSkn result" where
  "mutations [] w = Return w"
| "mutations (c # cs) w =
     (case mutate c w of Panic \<Rightarrow> Panic | Return w' \<Rightarrow> mutations cs w')"

text \<open>Every series of the widget's data map holds at most \<open>n\<close> points.\<close>

definition series_bounded :: "nat \<Rightarrow> LineChartSkn \<Rightarrow> bool" where
  "series_bounded n w \<longleftrightarrow>
     (case dataPoints w of
        None \<Rightarrow> True
      | Some m \<Rightarrow> list_all (\<lambda>(key, points). length points \<le> n) (entries m))"

subsection \<open>Example values\<close>

definition example_toolkit :: toolkit where
  "example_toolkit =
     \<lparr>Padding = 4,
      MeasureText = (\<lambda>s. NewSize (Fin (7 * real (length s))) 14),
      FormatFloat = (\<lambda>v. case v of NaN \<Rightarrow> ''NaN'' | Fin x \<Rightarrow> Itoa (nat \<lfloor>x\<rfloor>)),
      CircleResize = (\<lambda>c s. c\<lparr>CirclePosition2 :=
                        NewPos (X (CirclePosition1 c) + Width s)
                               (Y (CirclePosition1 c) + Height s)\<rparr>)\<rparr>"

definition example_point :: "float32 \<Rightarrow> SknChartDatapoint" where
  "example_point v =
     \<lparr>Value = v, ColorName = ''yellow'', Timestamp = ''2023-02-11T10:00:00Z'',
      MarkerTop = NewPos 0 0, MarkerBottom = NewPos 0 0\<rparr>"

text \<open>
  The widget the constructor returns for the titles below and a data map none of whose
  series is longer than 120 points.
\<close>

definition example_chart :: "series_map \<Rightarrow> LineChartSkn" where
  "example_chart m =
     \<lparr>DataPointXLimit = 120,
      EnableDataPointMarkers = True,
      EnableHorizGridLines = True,
      EnableVertGridLines = True,
      EnableMousePointDisplay = True,
      TopLeftLabel = ''top left desc'',
      TopCenteredLabel = ''Skoona Line Chart'',
      TopRightLabel = [],
      LeftMiddleLabel = ''left middle desc'',
      RightMiddleLabel = ''right middle desc'',
      BottomLeftLabel = ''bottom left desc'',
      BottomCenteredLabel = ''Example Time Series'',
      BottomRightLabel = ''bottom right desc'',
      mouseDisplayStr = [],
      mouseDisplayPosition = Some \<lparr>X = 0, Y = 0\<rparr>,
      mouseDisplayFrameColor = ''foreground'',
      dataPoints = Some m,
      dataPointScale = \<lparr>Width = 120, Height = 110\<rparr>,
      minSize = \<lparr>Width = 416, Height = 316\<rparr>,
      objects = []\<rparr>"

text \<open>A point with a marker, a widget holding it, and a mouse event over the marker.\<close>

definition example_marked_point :: SknChartDatapoint where
  "example_marked_point = (example_point 62)\<lparr>MarkerTop := NewPos 10 20, MarkerBottom := NewPos 14 24\<rparr>"

definition example_event :: MouseEvent where
  "example_event = \<lparr>EvPosition = NewPos 12 22, Button = MouseButtonPrimary\<rparr>"

definition example_hover_chart :: LineChartSkn where
  "example_hover_chart = example_chart (GoMap [(''first'', [example_marked_point])])"

text \<open>A series with a value above the scale, a negative one and one in range, and a renderer for it.\<close>

definition example_values :: "SknChartDatapoint list" where
  "example_values = [example_point 150, example_point (Fin (- 5)), example_point 62]"

definition example_series :: series_map where
  "example_series = GoMap [(''first'', example_values)]"

definition example_renderer :: sknLineChartRenderer where
  "example_renderer =
     \<lparr>widget = example_chart example_series,
      xInc = 0,
      yInc = 0,
      dataPoints_r = GoMap [(''first'',
        [\<lparr>Position1 = NewPos 0 0, Position2 = NewPos 0 0\<rparr>,
         \<lparr>Position1 = NewPos 0 0, Position2 = NewPos 0 0\<rparr>,
         \<lparr>Position1 = NewPos 0 0, Position2 = NewPos 0 0\<rparr>])],
      dataPointMarkers = GoMap [(''first'',
        [\<lparr>CirclePosition1 = NewPos 0 0, CirclePosition2 = NewPos 0 0\<rparr>,
         \<lparr>CirclePosition1 = NewPos 0 0, CirclePosition2 = NewPos 0 0\<rparr>,
         \<lparr>CirclePosition1 = NewPos 0 0, CirclePosition2 = NewPos 0 0\<rparr>])]\<rparr>"

text \<open>A series whose one value is NaN, and a renderer for it.\<close>

definition example_nan_series :: series_map where
  "example_nan_series = GoMap [(''first'', [example_point NaN])]"

definition example_nan_renderer :: sknLineChartRenderer where
  "example_nan_renderer =
     \<lparr>widget = example_chart example_nan_series,
      xInc = 0,
      yInc = 0,
      dataPoints_r = GoMap [(''first'',
        [\<lparr>Position1 = NewPos 0 0, Position2 = NewPos 0 0\<rparr>])],
      dataPointMarkers = GoMap [(''first'',
        [\<lparr>CirclePosition1 = NewPos 0 0, CirclePosition2 = NewPos 0 0\<rparr>])]\<rparr>"

text \<open>What \<open>Layout\<close> makes of that renderer at the size 1404 by 144.\<close>

definition example_nan_layout :: sknLineChartRenderer where
  "example_nan_layout =
     \<lparr>widget = example_chart (GoMap [(''first'',
        [(example_point NaN)\<lparr>MarkerTop := NewPos 98 NaN, MarkerBottom := NewPos 102 NaN\<rparr>])]),
      xInc = 100,
      yInc = 10,
      dataPoints_r = GoMap [(''first'',
        [\<lparr>Position1 = NewPos 100 NaN, Position2 = NewPos 100 NaN\<rparr>])],
      dataPointMarkers = GoMap [(''first'',
        [\<lparr>CirclePosition1 = NewPos 98 NaN, CirclePosition2 = NewPos 103 NaN\<rparr>])]\<rparr>"

section \<open>Properties\<close>

subsection \<open>Arithmetic of float32\<close>

lemma float32_plus:
  "Fin a + Fin b = Fin (a + b)" "NaN + x = NaN" "x + NaN = NaN"
  by (simp_all add: plus_float32_def split: float32.splits)

lemma float32_minus:
  "Fin a - Fin b = Fin (a - b)" "NaN - x = NaN" "x - NaN = NaN"
  by (simp_all add: minus_float32_def split: float32.splits)

lemma float32_times:
  "Fin a * Fin b = Fin (a * b)" "NaN * x = NaN" "x * NaN = NaN"
  by (simp_all add: times_float32_def split: float32.splits)

lemma float32_divide:
  "Fin a / Fin b = (if b = 0 then NaN else Fin (a / b))" "NaN / x = NaN" "x / NaN = NaN"
  by (simp_all add: divide_float32_def split: float32.splits)

lemma float32_less_eq:
  "Fin a \<le> Fin b \<longleftrightarrow> a \<le> b" "\<not> NaN \<le> x" "\<not> x \<le> NaN"
  by (simp_all add: less_eq_float32_def split: float32.splits)

lemma float32_less:
  "Fin a < Fin b \<longleftrightarrow> a < b" "\<not> NaN < x" "\<not> x < NaN"
  by (simp_all add: less_float32_def split: float32.splits)

lemma float32_numeral: "(numeral k :: float32) = Fin (numeral k)"
proof (induction k)
  case One
  show ?case by (simp add: one_float32_def)
next
  case (Bit0 k)
  have "(numeral (num.Bit0 k) :: float32) = numeral k + numeral k"
    by (rule numeral_Bit0)
  also have "\<dots> = Fin (numeral k + numeral k)"
    by (simp only: Bit0.IH float32_plus)
  also have "numeral k + numeral k = (numeral (num.Bit0 k) :: real)"
    by (rule numeral_Bit0 [symmetric])
  finally show ?case .
next
  case (Bit1 k)
  have "(numeral (num.Bit1 k) :: float32) = numeral k + numeral k + 1"
    by (rule numeral_Bit1)
  also have "\<dots> = Fin (numeral k + numeral k + 1)"
    by (simp only: Bit1.IH float32_plus one_float32_def)
  also have "numeral k + numeral k + 1 = (numeral (num.Bit1 k) :: real)"
    by (rule numeral_Bit1 [symmetric])
  finally show ?case .
qed

lemmas float32_simps =
  float32_plus float32_minus float32_times float32_divide float32_less_eq float32_less
  float32_numeral zero_float32_def one_float32_def

subsection \<open>Auxiliary facts\<close>

lemma map_get_update:
  "map_get (GoMap (AList.update k v kvs)) k' = (if k' = k then v else map_get (GoMap kvs) k')"
  by (simp add: map_get_def update_conv')

lemma ShiftSlice_eq: "ShiftSlice p xs = tl xs @ [p]"
  by (simp add: ShiftSlice_def RemoveIndexFromSlice_def drop_Suc)

lemma example_chart_constructed:
  "NewSknLineChart example_toolkit ''Skoona Line Chart'' ''Example Time Series''
     (Some (GoMap [])) = Return (Some (example_chart (GoMap [])), None)"
  by (simp add: NewSknLineChart_def truncate_all_def example_chart_def example_toolkit_def
      NewSize_def ColorNameForeground_def float32_simps)

subsection \<open>The rolling window\<close>

text \<open>
  C1, as stated for every widget state, fails. The constructor takes a pointer to a nil
  map and returns a widget holding it; on that widget \<open>ApplySingleDataPoint\<close> panics at
  the write to the map. And a series that holds 121 points, which the widget's map can
  come to hold through the caller's own pointer to it, still holds 121 after the call.
\<close>

theorem ApplySingleDataPoint_every_state_counterexample:
  "NewSknLineChart example_toolkit ''Skoona Line Chart'' ''Example Time Series'' (Some NilMap)
     = Return (Some (example_chart NilMap), None)
   \<and> ApplySingleDataPoint (Some (example_chart NilMap)) ''steady'' (example_point 62) = Panic
   \<and> ApplySingleDataPoint
       (Some (example_chart (GoMap [(''steady'', replicate 121 (example_point 30))])))
       ''steady'' (example_point 62)
     = Return (Some (example_chart
         (GoMap [(''steady'', replicate 120 (example_point 30) @ [example_point 62])])))
   \<and> length (replicate 120 (example_point 30) @ [example_point 62]) = 121"
proof -
  have t: "tl (replicate 121 (example_point 30)) = replicate 120 (example_point 30)"
    by (simp add: tl_replicate)
  have "NewSknLineChart example_toolkit ''Skoona Line Chart'' ''Example Time Series''
          (Some NilMap) = Return (Some (example_chart NilMap), None)"
    by (simp add: NewSknLineChart_def truncate_all_def example_chart_def example_toolkit_def
        NewSize_def ColorNameForeground_def float32_simps)
  moreover have
    "ApplySingleDataPoint (Some (example_chart NilMap)) ''steady'' (example_point 62) = Panic"
    by (simp add: ApplySingleDataPoint_def example_chart_def map_get_def)
  moreover have "ApplySingleDataPoint
       (Some (example_chart (GoMap [(''steady'', replicate 121 (example_point 30))])))
       ''steady'' (example_point 62)
     = Return (Some (example_chart
         (GoMap [(''steady'', replicate 120 (example_point 30) @ [example_point 62])])))"
    by (simp add: ApplySingleDataPoint_def example_chart_def map_get_def ShiftSlice_eq t)
  moreover have "length (replicate 120 (example_point 30) @ [example_point 62]) = 121"
    by simp
  ultimately show ?thesis by (intro conjI)
qed

text \<open>
  C1, amended. On a widget with the limit of 120 points and a data map that is not nil,
  \<open>ApplySingleDataPoint\<close> returns, and writes only the named series: a series of fewer than 120 points gets the
  new point appended, any other series loses its oldest point (index 0) and gets the new
  point at the end. The new point is the last element of the series after the call; the
  series grows by one point below 120 points and keeps its length otherwise, so a series
  of at most 120 points stays at most 120 points long.
\<close>

theorem ApplySingleDataPoint_rolls:
  assumes "DataPointXLimit w = 120" and "dataPoints w = Some (GoMap kvs)"
  shows "\<exists>kvs'. ApplySingleDataPoint (Some w) seriesName p
             = Return (Some (w\<lparr>dataPoints := Some (GoMap kvs')\<rparr>))
      \<and> map_get (GoMap kvs') seriesName =
          (if length (map_get (GoMap kvs) seriesName) < 120
           then map_get (GoMap kvs) seriesName @ [p]
           else tl (map_get (GoMap kvs) seriesName) @ [p])
      \<and> last (map_get (GoMap kvs') seriesName) = p
      \<and> length (map_get (GoMap kvs') seriesName) =
          (if length (map_get (GoMap kvs) seriesName) < 120
           then length (map_get (GoMap kvs) seriesName) + 1
           else length (map_get (GoMap kvs) seriesName))
      \<and> (length (map_get (GoMap kvs) seriesName) \<le> 120
           \<longrightarrow> length (map_get (GoMap kvs') seriesName) \<le> 120)
      \<and> (\<forall>other. other \<noteq> seriesName
           \<longrightarrow> map_get (GoMap kvs') other = map_get (GoMap kvs) other)"
  using assms
  by (auto simp: ApplySingleDataPoint_def map_get_update ShiftSlice_eq)

theorem ApplySingleDataPoint_rolls_witness:
  "DataPointXLimit (example_chart (GoMap [(''steady'', replicate 120 (example_point 1))])) = 120
   \<and> dataPoints (example_chart (GoMap [(''steady'', replicate 120 (example_point 1))]))
       = Some (GoMap [(''steady'', replicate 120 (example_point 1))])
   \<and> length (map_get (GoMap [(''steady'', replicate 120 (example_point 1))]) ''steady'') \<le> 120
   \<and> ''first'' \<noteq> ''steady''
   \<and> (\<exists>kvs'. ApplySingleDataPoint
          (Some (example_chart (GoMap [(''steady'', replicate 120 (example_point 1))])))
          ''steady'' (example_point 2)
        = Return (Some ((example_chart (GoMap [(''steady'', replicate 120 (example_point 1))]))
            \<lparr>dataPoints := Some (GoMap kvs')\<rparr>))
      \<and> map_get (GoMap kvs') ''steady'' = replicate 119 (example_point 1) @ [example_point 2]
      \<and> length (map_get (GoMap kvs') ''steady'') \<le> 120
      \<and> map_get (GoMap kvs') ''first'' = [])"
proof -
  define kvs where "kvs = [(''steady'', replicate 120 (example_point 1))]"
  define w where "w = example_chart (GoMap kvs)"
  define s where "s = ''steady''"
  define f where "f = ''first''"
  have h1: "DataPointXLimit w = 120" by (simp add: w_def example_chart_def)
  have h2: "dataPoints w = Some (GoMap kvs)" by (simp add: w_def example_chart_def)
  have g1: "map_get (GoMap kvs) s = replicate 120 (example_point 1)"
    by (simp add: map_get_def kvs_def s_def)
  have g2: "map_get (GoMap kvs) f = []"
    by (simp add: map_get_def kvs_def f_def)
  have t: "tl (replicate 120 (example_point 1)) @ [example_point 2]
           = replicate 119 (example_point 1) @ [example_point 2]"
    by (simp add: tl_replicate)
  have l: "length (map_get (GoMap kvs) s) \<le> 120" by (simp add: g1)
  have n: "f \<noteq> s" by (simp add: f_def s_def)
  from ApplySingleDataPoint_rolls [OF h1 h2, of s "example_point 2"]
  obtain kvs' where k:
    "ApplySingleDataPoint (Some w) s (example_point 2)
       = Return (Some (w\<lparr>dataPoints := Some (GoMap kvs')\<rparr>))"
    "map_get (GoMap kvs') s =
          (if length (map_get (GoMap kvs) s) < 120
           then map_get (GoMap kvs) s @ [example_point 2]
           else tl (map_get (GoMap kvs) s) @ [example_point 2])"
    "length (map_get (GoMap kvs) s) \<le> 120
           \<longrightarrow> length (map_get (GoMap kvs') s) \<le> 120"
    "\<forall>other. other \<noteq> s
           \<longrightarrow> map_get (GoMap kvs') other = map_get (GoMap kvs) other"
    by blast
  have k2: "map_get (GoMap kvs') s = replicate 119 (example_point 1) @ [example_point 2]"
    using k(2) t by (simp add: g1)
  from k(3) l have k3: "length (map_get (GoMap kvs') s) \<le> 120" by blast
  from k(4) n g2 have k4: "map_get (GoMap kvs') f = []" by simp
  have "DataPointXLimit w = 120 \<and> dataPoints w = Some (GoMap kvs)
     \<and> length (map_get (GoMap kvs) s) \<le> 120 \<and> f \<noteq> s
     \<and> (\<exists>kvs'. ApplySingleDataPoint (Some w) s (example_point 2)
            = Return (Some (w\<lparr>dataPoints := Some (GoMap kvs')\<rparr>))
          \<and> map_get (GoMap kvs') s = replicate 119 (example_point 1) @ [example_point 2]
          \<and> length (map_get (GoMap kvs') s) \<le> 120
          \<and> map_get (GoMap kvs') f = [])"
    using h1 h2 l n k(1) k2 k3 k4 by blast
  then show ?thesis unfolding w_def kvs_def s_def f_def .
qed

subsection \<open>The bound on every series\<close>

lemma list_all_update:
  "list_all P kvs \<Longrightarrow> P (k, v) \<Longrightarrow> list_all P (AList.update k v kvs)"
  by (induction kvs) auto

lemma map_get_bounded:
  assumes "list_all (\<lambda>(key, points). length points \<le> n) (entries m)"
  shows "length (map_get m k) \<le> n"
proof (cases "map_of (entries m) k")
  case None
  then show ?thesis by (simp add: map_get_def)
next
  case (Some v)
  then have "(k, v) \<in> set (entries m)" by (rule map_of_SomeD)
  with assms have "length v \<le> n" by (auto simp: list_all_iff)
  with Some show ?thesis by (simp add: map_get_def)
qed

lemma find_None_bounded:
  assumes "find (\<lambda>(key, points). int (length points) > bound) kvs = None"
  shows "list_all (\<lambda>(key, points). int (length points) \<le> bound) kvs"
  using assms by (fastforce simp: find_None_iff list_all_iff not_less)

lemma ReplaceAllDataSeries_bounded:
  assumes "DataPointXLimit w = 120" and "series_bounded 120 w"
    and "ReplaceAllDataSeries w newData = Return (w', err)"
  shows "series_bounded 120 w' \<and> DataPointXLimit w' = 120"
proof (cases err)
  case (Some e)
  with assms(3) have "w' = w"
    by (auto simp: ReplaceAllDataSeries_def split: option.splits if_splits prod.splits)
  with assms show ?thesis by simp
next
  case None
  with assms(3) obtain new where n: "newData = Some new"
      "find (\<lambda>(key, points). int (length points) > DataPointXLimit w) (entries new) = None"
      "w' = w\<lparr>dataPoints := newData\<rparr>"
    by (auto simp: ReplaceAllDataSeries_def split: option.splits if_splits prod.splits)
  from find_None_bounded [OF n(2)] assms(1)
  have "list_all (\<lambda>(key, points). length points \<le> 120) (entries new)"
    by (auto simp: list_all_iff)
  with n assms(1) show ?thesis by (simp add: series_bounded_def)
qed

lemma ApplyNewDataSeries_bounded:
  assumes "DataPointXLimit w = 120" and "series_bounded 120 w"
    and "ApplyNewDataSeries (Some w) seriesName newSeries = Return (Some w', err)"
  shows "series_bounded 120 w' \<and> DataPointXLimit w' = 120"
  using assms
  by (cases "dataPoints w"; cases "the (dataPoints w)")
     (auto simp: ApplyNewDataSeries_def series_bounded_def list_all_update
           split: if_splits)

lemma ApplySingleDataPoint_bounded:
  assumes "DataPointXLimit w = 120" and "series_bounded 120 w"
    and "ApplySingleDataPoint (Some w) seriesName p = Return (Some w')"
  shows "series_bounded 120 w' \<and> DataPointXLimit w' = 120"
proof -
  from assms(3) obtain kvs where k: "dataPoints w = Some (GoMap kvs)"
    by (cases "dataPoints w"; cases "the (dataPoints w)")
       (auto simp: ApplySingleDataPoint_def)
  with assms(2) have b: "list_all (\<lambda>(key, points). length points \<le> 120) (entries (GoMap kvs))"
    by (simp add: series_bounded_def)
  have l: "length (map_get (GoMap kvs) seriesName) \<le> 120"
    by (rule map_get_bounded [OF b])
  show ?thesis
    using assms(1,3) k b l
    by (auto simp: ApplySingleDataPoint_def series_bounded_def ShiftSlice_eq
          intro!: list_all_update split: if_splits)
qed

lemma mutate_bounded:
  assumes "DataPointXLimit w = 120" and "series_bounded 120 w" and "mutate c w = Return w'"
  shows "series_bounded 120 w' \<and> DataPointXLimit w' = 120"
proof (cases c)
  case (Replace newData)
  with assms(3) obtain err where "ReplaceAllDataSeries w newData = Return (w', err)"
    by (auto split: result.splits)
  from ReplaceAllDataSeries_bounded [OF assms(1,2) this] show ?thesis .
next
  case (ApplySeries seriesName newSeries)
  with assms(3) obtain wp err where
    r: "ApplyNewDataSeries (Some w) seriesName newSeries = Return (wp, err)"
    and w': "w' = (case wp of None \<Rightarrow> w | Some v \<Rightarrow> v)"
    by (auto split: result.splits)
  show ?thesis
  proof (cases wp)
    case None
    with w' assms(1,2) show ?thesis by simp
  next
    case (Some v)
    with r w' have "ApplyNewDataSeries (Some w) seriesName newSeries = Return (Some w', err)"
      by simp
    from ApplyNewDataSeries_bounded [OF assms(1,2) this] show ?thesis .
  qed
next
  case (ApplyPoint seriesName p)
  with assms(3) obtain wp where
    r: "ApplySingleDataPoint (Some w) seriesName p = Return wp"
    and w': "w' = (case wp of None \<Rightarrow> w | Some v \<Rightarrow> v)"
    by (auto split: result.splits)
  show ?thesis
  proof (cases wp)
    case None
    with w' assms(1,2) show ?thesis by simp
  next
    case (Some v)
    with r w' have "ApplySingleDataPoint (Some w) seriesName p = Return (Some w')"
      by simp
    from ApplySingleDataPoint_bounded [OF assms(1,2) this] show ?thesis .
  qed
qed

text \<open>
  C2. From a widget with the limit of 120 points whose series all hold at most 120
  points, every run of \<open>ReplaceAllDataSeries\<close>, \<open>ApplyNewDataSeries\<close> and
  \<open>ApplySingleDataPoint\<close> calls, in any order and with any arguments, ends in a widget
  whose series all hold at most 120 points.
\<close>

theorem mutations_keep_series_bounded:
  assumes "DataPointXLimit w = 120" and "series_bounded 120 w"
    and "mutations cs w = Return w'"
  shows "series_bounded 120 w' \<and> DataPointXLimit w' = 120"
  using assms
proof (induction cs arbitrary: w)
  case Nil
  then show ?case by simp
next
  case (Cons c cs)
  from Cons.prems(3) obtain w1 where s: "mutate c w = Return w1" "mutations cs w1 = Return w'"
    by (auto split: result.splits)
  from mutate_bounded [OF Cons.prems(1,2) s(1)] Cons.IH [OF _ _ s(2)]
  show ?case by blast
qed

theorem mutations_keep_series_bounded_witness:
  "DataPointXLimit (example_chart (GoMap [])) = 120
   \<and> series_bounded 120 (example_chart (GoMap []))
   \<and> mutations
        [ApplyPoint ''steady'' (example_point 5),
         ApplySeries ''many'' [example_point 7, example_point 8],
         Replace (Some (GoMap [(''first'', [example_point 1]), (''second'', [])]))]
        (example_chart (GoMap []))
      = Return (example_chart (GoMap [(''first'', [example_point 1]), (''second'', [])]))
   \<and> series_bounded 120
        (example_chart (GoMap [(''first'', [example_point 1]), (''second'', [])]))
   \<and> DataPointXLimit
        (example_chart (GoMap [(''first'', [example_point 1]), (''second'', [])])) = 120"
proof -
  have h1: "DataPointXLimit (example_chart (GoMap [])) = 120"
    by (simp add: example_chart_def)
  have h2: "series_bounded 120 (example_chart (GoMap []))"
    by (simp add: series_bounded_def example_chart_def)
  have h3: "mutations
        [ApplyPoint ''steady'' (example_point 5),
         ApplySeries ''many'' [example_point 7, example_point 8],
         Replace (Some (GoMap [(''first'', [example_point 1]), (''second'', [])]))]
        (example_chart (GoMap []))
      = Return (example_chart (GoMap [(''first'', [example_point 1]), (''second'', [])]))"
    by (simp add: ApplySingleDataPoint_def ApplyNewDataSeries_def ReplaceAllDataSeries_def
        example_chart_def map_get_def map_len_def)
  note c = mutations_keep_series_bounded [OF h1 h2 h3]
  show ?thesis
    by (intro conjI h1 h2 h3 c [THEN conjunct1] c [THEN conjunct2])
qed

subsection \<open>The constructor\<close>

lemma truncate_leading_drop: "truncate_leading n xs = drop (length xs - n) xs"
proof (induction n xs rule: truncate_leading.induct)
  case (1 dpl points)
  show ?case
  proof (cases "length points > dpl")
    case True
    then obtain x rest where p: "points = x # rest" by (cases points) auto
    from True p have "truncate_leading dpl points = truncate_leading dpl rest"
      by (subst truncate_leading.simps) (simp add: RemoveIndexFromSlice_def)
    also from 1 True p have "\<dots> = drop (length rest - dpl) rest"
      by (simp add: RemoveIndexFromSlice_def)
    also from True p have "\<dots> = drop (length points - dpl) points"
      by (simp add: Suc_diff_le)
    finally show ?thesis .
  next
    case False
    then show ?thesis by (subst truncate_leading.simps) simp
  qed
qed

lemma fold_truncate_series:
  assumes "distinct (map fst ys)" and "fst ` set ys \<subseteq> fst ` set acc"
    and "fold (truncate_series n) ys (acc, e) = (acc', e')"
  shows "map fst acc' = map fst acc
    \<and> (\<forall>k. map_of acc' k =
          (case map_of ys k of
             None \<Rightarrow> map_of acc k
           | Some pts \<Rightarrow> if length pts > n then Some (truncate_leading n pts)
                         else map_of acc k))
    \<and> (e' \<noteq> None \<longleftrightarrow> e \<noteq> None \<or> (\<exists>(k, pts) \<in> set ys. length pts > n))"
  using assms
proof (induction ys arbitrary: acc e)
  case Nil
  then show ?case by simp
next
  case (Cons y ys)
  obtain k0 p0 where y: "y = (k0, p0)" by (cases y)
  obtain acc1 e1 where s: "truncate_series n y (acc, e) = (acc1, e1)"
    by (cases "truncate_series n y (acc, e)")
  from Cons.prems(2) y have kin: "k0 \<in> set (map fst acc)" by auto
  then have "map fst (AList.update k0 v acc) = map fst acc" for v
    by (simp add: update_keys)
  then have a1: "map fst acc1 = map fst acc"
    using s y by (auto simp: truncate_series_def Let_def split: if_splits)
  have m1: "map_of acc1 = (if length p0 > n then (map_of acc)(k0 \<mapsto> truncate_leading n p0)
                           else map_of acc)"
    using s y by (auto simp: truncate_series_def Let_def update_conv' split: if_splits)
  have e1: "e1 \<noteq> None \<longleftrightarrow> e \<noteq> None \<or> length p0 > n"
    using s y by (auto simp: truncate_series_def Let_def split: if_splits)
  from Cons.prems(1) have d: "distinct (map fst ys)" and nk: "map_of ys k0 = None"
    using y by (auto simp: map_of_eq_None_iff)
  from Cons.prems(2) a1 have sub: "fst ` set ys \<subseteq> fst ` set acc1"
    by (metis (no_types, lifting) set_map set_subset_Cons subset_trans image_mono)
  from Cons.prems(3) s have f: "fold (truncate_series n) ys (acc1, e1) = (acc', e')" by simp
  note ih = Cons.IH [OF d sub f]
  show ?case
  proof (intro conjI allI)
    show "map fst acc' = map fst acc" using ih a1 by simp
  next
    fix k
    show "map_of acc' k =
          (case map_of (y # ys) k of
             None \<Rightarrow> map_of acc k
           | Some pts \<Rightarrow> if length pts > n then Some (truncate_leading n pts)
                         else map_of acc k)"
    proof (cases "k = k0")
      case True
      with ih nk m1 y show ?thesis by simp
    next
      case False
      with ih m1 y show ?thesis by (simp split: option.splits)
    qed
  next
    show "e' \<noteq> None \<longleftrightarrow> e \<noteq> None \<or> (\<exists>(k, pts) \<in> set (y # ys). length pts > n)"
      using ih e1 y by auto
  qed
qed

lemma truncate_all_spec:
  assumes "distinct_keys m" and "truncate_all n m = (m', err)"
  shows "map fst (entries m') = map fst (entries m)
    \<and> (\<forall>(key, points) \<in> set (entries m).
          map_get m' key = (if length points > n then drop (length points - n) points
                            else points))
    \<and> (err \<noteq> None \<longleftrightarrow> (\<exists>(key, points) \<in> set (entries m). length points > n))"
proof (cases m)
  case NilMap
  with assms(2) show ?thesis by (simp add: truncate_all_def)
next
  case (GoMap kvs)
  with assms(2) obtain kvs' where
    f: "fold (truncate_series n) kvs (kvs, None) = (kvs', err)" and m': "m' = GoMap kvs'"
    by (auto simp: truncate_all_def split: prod.splits)
  from assms(1) GoMap have d: "distinct (map fst kvs)" by (simp add: distinct_keys_def)
  note r = fold_truncate_series [OF d subset_refl f]
  have "map_get m' key = (if length points > n then drop (length points - n) points else points)"
    if "(key, points) \<in> set kvs" for key points
  proof -
    from that d have "map_of kvs key = Some points" by simp
    with r show ?thesis by (simp add: map_get_def m' truncate_leading_drop)
  qed
  with r GoMap m' show ?thesis by auto
qed

text \<open>
  C3. For every data map, \<open>NewSknLineChart\<close> returns a widget (never nil) with the
  limit 120 and the same series names. A series longer than 120 points is cut down to its
  last 120 points, the leading points removed; a series of at most 120 points is left as
  it is. The error returned is non-nil exactly when some series was longer than 120
  points.
\<close>

theorem NewSknLineChart_truncates:
  assumes "distinct_keys m"
  shows "\<exists>w m' err. NewSknLineChart tk topTitle bottomTitle (Some m) = Return (Some w, err)
     \<and> dataPoints w = Some m' \<and> DataPointXLimit w = 120
     \<and> map fst (entries m') = map fst (entries m)
     \<and> (\<forall>(key, points) \<in> set (entries m).
           map_get m' key = (if length points > 120 then drop (length points - 120) points
                             else points)
         \<and> length (map_get m' key) = min 120 (length points))
     \<and> (err \<noteq> None \<longleftrightarrow> (\<exists>(key, points) \<in> set (entries m). length points > 120))"
proof -
  obtain m' err where t: "truncate_all 120 m = (m', err)" by (cases "truncate_all 120 m")
  note s = truncate_all_spec [OF assms t]
  from t obtain w where w: "NewSknLineChart tk topTitle bottomTitle (Some m) = Return (Some w, err)"
    "dataPoints w = Some m'" "DataPointXLimit w = 120"
    by (simp add: NewSknLineChart_def)
  from s have "\<forall>(key, points) \<in> set (entries m).
           map_get m' key = (if length points > 120 then drop (length points - 120) points
                             else points)
         \<and> length (map_get m' key) = min 120 (length points)"
    by auto
  with w s show ?thesis by blast
qed

theorem NewSknLineChart_truncates_witness:
  "distinct_keys (GoMap [(''first'', replicate 124 (example_point 30)),
                         (''second'', [example_point 35])])
   \<and> (''first'', replicate 124 (example_point 30))
        \<in> set (entries (GoMap [(''first'', replicate 124 (example_point 30)),
                                (''second'', [example_point 35])]))
   \<and> (\<exists>w m' err.
         NewSknLineChart example_toolkit ''Skoona Line Chart'' ''Example Time Series''
           (Some (GoMap [(''first'', replicate 124 (example_point 30)),
                         (''second'', [example_point 35])]))
         = Return (Some w, err)
       \<and> dataPoints w = Some m'
       \<and> map_get m' ''first'' = replicate 120 (example_point 30)
       \<and> map_get m' ''second'' = [example_point 35]
       \<and> err \<noteq> None)"
proof -
  define long where "long = replicate 124 (example_point 30)"
  define m where "m = GoMap [(''first'', long), (''second'', [example_point 35])]"
  have d: "distinct_keys m" by (simp add: m_def distinct_keys_def)
  have i1: "(''first'', long) \<in> set (entries m)" by (simp add: m_def)
  have i2: "(''second'', [example_point 35]) \<in> set (entries m)" by (simp add: m_def)
  have l: "length long > 120" by (simp add: long_def)
  have t: "drop (length long - 120) long = replicate 120 (example_point 30)"
    by (simp add: long_def)
  from NewSknLineChart_truncates [OF d, of example_toolkit "''Skoona Line Chart''"
      "''Example Time Series''"]
  obtain w m' err where r:
    "NewSknLineChart example_toolkit ''Skoona Line Chart'' ''Example Time Series'' (Some m)
       = Return (Some w, err)"
    "dataPoints w = Some m'"
    "\<forall>(key, points) \<in> set (entries m).
           map_get m' key = (if length points > 120 then drop (length points - 120) points
                             else points)
         \<and> length (map_get m' key) = min 120 (length points)"
    "err \<noteq> None \<longleftrightarrow> (\<exists>(key, points) \<in> set (entries m). length points > 120)"
    by blast
  from r(3) i1 l t have g1: "map_get m' ''first'' = replicate 120 (example_point 30)"
    by fastforce
  from r(3) i2 have g2: "map_get m' ''second'' = [example_point 35]"
    by fastforce
  from r(4) i1 l have e: "err \<noteq> None" by blast
  have "distinct_keys m \<and> (''first'', long) \<in> set (entries m)
    \<and> (\<exists>w m' err.
         NewSknLineChart example_toolkit ''Skoona Line Chart'' ''Example Time Series'' (Some m)
         = Return (Some w, err)
       \<and> dataPoints w = Some m'
       \<and> map_get m' ''first'' = replicate 120 (example_point 30)
       \<and> map_get m' ''second'' = [example_point 35]
       \<and> err \<noteq> None)"
    using d i1 r(1,2) g1 g2 e by blast
  then show ?thesis unfolding m_def long_def .
qed

subsection \<open>Errors of the data-mutation calls\<close>

lemma fold_truncate_series_error:
  "fold (truncate_series n) ys (acc, e) = (acc', e') \<Longrightarrow>
   (e' \<noteq> None \<longleftrightarrow> e \<noteq> None \<or> (\<exists>(k, pts) \<in> set ys. length pts > n))"
proof (induction ys arbitrary: acc e)
  case Nil
  then show ?case by simp
next
  case (Cons y ys)
  obtain k0 p0 where y: "y = (k0, p0)" by (cases y)
  obtain acc1 e1 where s: "truncate_series n y (acc, e) = (acc1, e1)"
    by (cases "truncate_series n y (acc, e)")
  have e1: "e1 \<noteq> None \<longleftrightarrow> e \<noteq> None \<or> length p0 > n"
    using s y by (auto simp: truncate_series_def Let_def split: if_splits)
  from Cons.prems s have "fold (truncate_series n) ys (acc1, e1) = (acc', e')" by simp
  from Cons.IH [OF this] e1 y show ?case by auto
qed

lemma NewSknLineChart_error:
  assumes "NewSknLineChart tk topTitle bottomTitle (Some m) = Return (wp, Some e)"
  shows "\<exists>(key, points) \<in> set (entries m). length points > 120"
proof (cases m)
  case NilMap
  with assms show ?thesis by (simp add: NewSknLineChart_def truncate_all_def)
next
  case (GoMap kvs)
  with assms obtain kvs' where "fold (truncate_series 120) kvs (kvs, None) = (kvs', Some e)"
    by (auto simp: NewSknLineChart_def truncate_all_def split: prod.splits)
  from fold_truncate_series_error [OF this] GoMap show ?thesis by simp
qed

lemma find_Some_exceeds:
  "find (\<lambda>(key, points). int (length points) > n) kvs = Some (k, pts) \<Longrightarrow>
   (k, pts) \<in> set kvs \<and> int (length pts) > n"
  by (auto simp: find_Some_iff in_set_conv_nth)

lemma ReplaceAllDataSeries_error:
  assumes "ReplaceAllDataSeries w newData = Return (w', Some e)"
  shows "w' = w \<and>
     (dataPoints w = None
      \<or> (\<exists>old new. dataPoints w = Some old \<and> newData = Some new \<and>
            (map_len new < map_len old
             \<or> (\<exists>(key, points) \<in> set (entries new).
                   int (length points) > DataPointXLimit w))))"
proof (cases "dataPoints w")
  case None
  with assms show ?thesis by (simp add: ReplaceAllDataSeries_def)
next
  case (Some old)
  with assms obtain new where n: "newData = Some new"
    by (cases newData) (auto simp: ReplaceAllDataSeries_def)
  show ?thesis
  proof (cases "map_len old \<le> map_len new")
    case False
    with assms Some n show ?thesis by (simp add: ReplaceAllDataSeries_def)
  next
    case True
    with assms Some n obtain k pts where
      f: "find (\<lambda>(key, points). int (length points) > DataPointXLimit w) (entries new)
            = Some (k, pts)" and "w' = w"
      by (auto simp: ReplaceAllDataSeries_def split: option.splits)
    from find_Some_exceeds [OF f] \<open>w' = w\<close> Some n show ?thesis by auto
  qed
qed

lemma ApplyNewDataSeries_error:
  assumes "ApplyNewDataSeries wp seriesName newSeries = Return (wp', Some e)"
  shows "wp' = wp \<and> (wp = None \<or> (\<exists>w. wp = Some w \<and> int (length newSeries) \<ge> DataPointXLimit w))"
  using assms
  by (auto simp: ApplyNewDataSeries_def split: option.splits if_splits result.splits)

text \<open>
  C4. A series of exactly 120 points does not exceed the limit of 120, and
  \<open>ApplyNewDataSeries\<close> rejects it: the call returns the limit-exceeded error and leaves
  the widget as it was.
\<close>

theorem ApplyNewDataSeries_rejects_120:
  "ApplyNewDataSeries (Some (example_chart (GoMap []))) ''many''
     (replicate 120 (example_point 70))
   = Return (Some (example_chart (GoMap [])), Some (LimitExceeded ''many'' 120 120))"
  by (simp add: ApplyNewDataSeries_def example_chart_def)

text \<open>
  C5, as stated, fails: \<open>ReplaceAllDataSeries\<close> returns an error for a new map with
  fewer series than the widget has, though no series involved is longer than 120 points.
\<close>

theorem error_without_long_series_counterexample:
  "ReplaceAllDataSeries (example_chart (GoMap [(''first'', [example_point 30])]))
     (Some (GoMap []))
   = Return (example_chart (GoMap [(''first'', [example_point 30])]),
             Some (MustBeLarger 0 1))
   \<and> \<not> (\<exists>(key, points) \<in> set (entries (GoMap [(''first'', [example_point 30])])).
           length points > 120)
   \<and> \<not> (\<exists>(key, points) \<in> set (entries (GoMap [] :: series_map)).
           length points > 120)"
  by (simp add: ReplaceAllDataSeries_def example_chart_def map_len_def)

text \<open>
  C5, amended. An error of the constructor means that some series of the given map is
  longer than 120 points. An error of \<open>ReplaceAllDataSeries\<close> means that the widget has
  no data map, or that the new map has fewer series than the existing one, or that some
  new series is longer than the widget's limit. An error of \<open>ApplyNewDataSeries\<close> for a
  series of other than exactly 120 points, on a widget with the limit 120, means that
  the receiver is nil or that the series is longer than 120 points.
\<close>

theorem errors_of_data_mutations:
  "(NewSknLineChart tk topTitle bottomTitle (Some m) = Return (wp0, Some e0)
      \<longrightarrow> (\<exists>(key, points) \<in> set (entries m). length points > 120))
   \<and> (ReplaceAllDataSeries w newData = Return (w', Some e1)
      \<longrightarrow> dataPoints w = None
          \<or> (\<exists>old new. dataPoints w = Some old \<and> newData = Some new \<and>
                (map_len new < map_len old
                 \<or> (\<exists>(key, points) \<in> set (entries new).
                       int (length points) > DataPointXLimit w))))
   \<and> (ApplyNewDataSeries wp seriesName newSeries = Return (wp', Some e2)
       \<and> length newSeries \<noteq> 120
       \<and> (\<forall>v. wp = Some v \<longrightarrow> DataPointXLimit v = 120)
      \<longrightarrow> wp = None \<or> length newSeries > 120)"
proof (intro conjI impI)
  assume "NewSknLineChart tk topTitle bottomTitle (Some m) = Return (wp0, Some e0)"
  then show "\<exists>(key, points) \<in> set (entries m). length points > 120"
    by (rule NewSknLineChart_error)
next
  assume "ReplaceAllDataSeries w newData = Return (w', Some e1)"
  from ReplaceAllDataSeries_error [OF this]
  show "dataPoints w = None
          \<or> (\<exists>old new. dataPoints w = Some old \<and> newData = Some new \<and>
                (map_len new < map_len old
                 \<or> (\<exists>(key, points) \<in> set (entries new).
                       int (length points) > DataPointXLimit w)))"
    by blast
next
  assume a: "ApplyNewDataSeries wp seriesName newSeries = Return (wp', Some e2)
       \<and> length newSeries \<noteq> 120
       \<and> (\<forall>v. wp = Some v \<longrightarrow> DataPointXLimit v = 120)"
  then have "ApplyNewDataSeries wp seriesName newSeries = Return (wp', Some e2)" by blast
  from ApplyNewDataSeries_error [OF this] a
  show "wp = None \<or> length newSeries > 120" by auto
qed

theorem errors_of_data_mutations_witness:
  "NewSknLineChart example_toolkit ''Skoona Line Chart'' ''Example Time Series''
       (Some (GoMap [(''first'', replicate 121 (example_point 30))]))
     = Return (Some (example_chart (GoMap [(''first'', replicate 120 (example_point 30))])),
               Some (Truncated (Some (Truncated None ''first'' 121 120)) ''first'' 120 120))
   \<and> (\<exists>(key, points) \<in> set (entries (GoMap [(''first'', replicate 121 (example_point 30))])).
         length points > 120)
   \<and> ReplaceAllDataSeries (example_chart (GoMap [(''first'', [example_point 30])]))
       (Some (GoMap []))
     = Return (example_chart (GoMap [(''first'', [example_point 30])]),
               Some (MustBeLarger 0 1))
   \<and> (dataPoints (example_chart (GoMap [(''first'', [example_point 30])])) = None
      \<or> (\<exists>old new.
            dataPoints (example_chart (GoMap [(''first'', [example_point 30])])) = Some old
          \<and> Some (GoMap [] :: series_map) = Some new
          \<and> (map_len new < map_len old
             \<or> (\<exists>(key, points) \<in> set (entries new).
                   int (length points)
                   > DataPointXLimit (example_chart (GoMap [(''first'', [example_point 30])]))))))
   \<and> ApplyNewDataSeries (Some (example_chart (GoMap []))) ''many''
       (replicate 121 (example_point 70))
     = Return (Some (example_chart (GoMap [])), Some (LimitExceeded ''many'' 120 121))
   \<and> length (replicate 121 (example_point 70)) \<noteq> 120
   \<and> DataPointXLimit (example_chart (GoMap [])) = 120
   \<and> (Some (example_chart (GoMap [])) = None
      \<or> length (replicate 121 (example_point 70)) > 120)"
proof -
  have h1: "NewSknLineChart example_toolkit ''Skoona Line Chart'' ''Example Time Series''
       (Some (GoMap [(''first'', replicate 121 (example_point 30))]))
     = Return (Some (example_chart (GoMap [(''first'', replicate 120 (example_point 30))])),
               Some (Truncated (Some (Truncated None ''first'' 121 120)) ''first'' 120 120))"
    by (simp add: NewSknLineChart_def truncate_all_def truncate_series_def
        truncate_leading_drop example_chart_def example_toolkit_def NewSize_def
        ColorNameForeground_def float32_simps)
  have h2: "ReplaceAllDataSeries (example_chart (GoMap [(''first'', [example_point 30])]))
       (Some (GoMap []))
     = Return (example_chart (GoMap [(''first'', [example_point 30])]),
               Some (MustBeLarger 0 1))"
    by (simp add: ReplaceAllDataSeries_def example_chart_def map_len_def)
  have h3: "ApplyNewDataSeries (Some (example_chart (GoMap []))) ''many''
       (replicate 121 (example_point 70))
     = Return (Some (example_chart (GoMap [])), Some (LimitExceeded ''many'' 120 121))"
    by (simp add: ApplyNewDataSeries_def example_chart_def)
  have h4: "length (replicate 121 (example_point 70)) \<noteq> 120" by simp
  have h5: "DataPointXLimit (example_chart (GoMap [])) = 120"
    by (simp add: example_chart_def)
  have h6: "\<forall>v. Some (example_chart (GoMap [])) = Some v \<longrightarrow> DataPointXLimit v = 120"
    using h5 by simp
  note T = errors_of_data_mutations
    [where tk = example_toolkit and topTitle = "''Skoona Line Chart''"
       and bottomTitle = "''Example Time Series''"
       and m = "GoMap [(''first'', replicate 121 (example_point 30))]"
       and ?wp0.0 = "Some (example_chart (GoMap [(''first'', replicate 120 (example_point 30))]))"
       and ?e0.0 = "Truncated (Some (Truncated None ''first'' 121 120)) ''first'' 120 120"
       and w = "example_chart (GoMap [(''first'', [example_point 30])])"
       and newData = "Some (GoMap [])"
       and w' = "example_chart (GoMap [(''first'', [example_point 30])])"
       and ?e1.0 = "MustBeLarger 0 1"
       and wp = "Some (example_chart (GoMap []))" and seriesName = "''many''"
       and newSeries = "replicate 121 (example_point 70)"
       and wp' = "Some (example_chart (GoMap []))"
       and ?e2.0 = "LimitExceeded ''many'' 120 121"]
  note c1 = T [THEN conjunct1, THEN mp, OF h1]
  note c2 = T [THEN conjunct2, THEN conjunct1, THEN mp, OF h2]
  note c3 = T [THEN conjunct2, THEN conjunct2, THEN mp, OF conjI [OF h3 conjI [OF h4 h6]]]
  show ?thesis
    by (intro conjI h1 c1 h2 c2 h3 h4 h5 c3)
qed

subsection \<open>Failure of ReplaceAllDataSeries\<close>

text \<open>
  C10. Whenever \<open>ReplaceAllDataSeries\<close> returns an error, the widget is exactly as it
  was before the call, its data map included. The call does return an error, and so
  leaves the widget alone, when the widget has no data map, when the new map has fewer
  series than the existing one, and when some new series is longer than the limit.
\<close>

theorem ReplaceAllDataSeries_atomic:
  "(ReplaceAllDataSeries w newData = Return (w', Some e)
      \<longrightarrow> w' = w \<and> dataPoints w' = dataPoints w)
   \<and> (dataPoints w = None
      \<longrightarrow> (\<exists>e'. ReplaceAllDataSeries w newData = Return (w, Some e')))
   \<and> (dataPoints w = Some old \<and> newData = Some new
       \<and> (map_len new < map_len old
          \<or> (\<exists>(key, points) \<in> set (entries new). int (length points) > DataPointXLimit w))
      \<longrightarrow> (\<exists>e'. ReplaceAllDataSeries w newData = Return (w, Some e')))"
proof (intro conjI impI)
  assume "ReplaceAllDataSeries w newData = Return (w', Some e)"
  from ReplaceAllDataSeries_error [OF this] show "w' = w" by blast
  then show "dataPoints w' = dataPoints w" by simp
next
  assume "dataPoints w = None"
  then show "\<exists>e'. ReplaceAllDataSeries w newData = Return (w, Some e')"
    by (simp add: ReplaceAllDataSeries_def)
next
  assume a: "dataPoints w = Some old \<and> newData = Some new
       \<and> (map_len new < map_len old
          \<or> (\<exists>(key, points) \<in> set (entries new). int (length points) > DataPointXLimit w))"
  show "\<exists>e'. ReplaceAllDataSeries w newData = Return (w, Some e')"
  proof (cases "map_len old \<le> map_len new")
    case False
    with a show ?thesis by (simp add: ReplaceAllDataSeries_def)
  next
    case True
    with a have "\<exists>(key, points) \<in> set (entries new). int (length points) > DataPointXLimit w"
      by auto
    then have "find (\<lambda>(key, points). int (length points) > DataPointXLimit w) (entries new)
                \<noteq> None"
      by (auto simp: find_None_iff)
    with a True show ?thesis
      by (auto simp: ReplaceAllDataSeries_def split: option.splits)
  qed
qed

theorem ReplaceAllDataSeries_atomic_witness:
  "ReplaceAllDataSeries
       (example_chart (GoMap [(''first'', [example_point 30])]))
       (Some (GoMap [(''long'', replicate 121 (example_point 70))]))
     = Return (example_chart (GoMap [(''first'', [example_point 30])]),
               Some (LimitExceeded ''long'' 120 121))
   \<and> dataPoints (example_chart (GoMap [(''first'', [example_point 30])]))
       = Some (GoMap [(''first'', [example_point 30])])
   \<and> (\<exists>e'. ReplaceAllDataSeries
              ((example_chart (GoMap []))\<lparr>dataPoints := None\<rparr>) (Some (GoMap []))
            = Return ((example_chart (GoMap []))\<lparr>dataPoints := None\<rparr>, Some e'))
   \<and> (\<exists>e'. ReplaceAllDataSeries
              (example_chart (GoMap [(''first'', [example_point 30])])) (Some (GoMap []))
            = Return (example_chart (GoMap [(''first'', [example_point 30])]), Some e'))"
proof -
  define w where "w = example_chart (GoMap [(''first'', [example_point 30])])"
  define w0 where "w0 = (example_chart (GoMap []))\<lparr>dataPoints := None\<rparr>"
  define long where "long = GoMap [(''long'', replicate 121 (example_point 70))]"
  define none :: series_map where "none = GoMap []"
  have h1: "ReplaceAllDataSeries w (Some long) = Return (w, Some (LimitExceeded ''long'' 120 121))"
    by (simp add: ReplaceAllDataSeries_def example_chart_def map_len_def w_def long_def)
  have h2: "dataPoints w0 = None" by (simp add: w0_def)
  have h3: "dataPoints w = Some (GoMap [(''first'', [example_point 30])]) \<and> Some none = Some none
       \<and> (map_len none < map_len (GoMap [(''first'', [example_point 30])])
          \<or> (\<exists>(key, points) \<in> set (entries none). int (length points) > DataPointXLimit w))"
    by (simp add: w_def none_def example_chart_def map_len_def)
  note c2 = ReplaceAllDataSeries_atomic [where newData = "Some none", THEN conjunct2,
              THEN conjunct1, THEN mp, OF h2]
  note c3 = ReplaceAllDataSeries_atomic [THEN conjunct2, THEN conjunct2, THEN mp, OF h3]
  from h3 have d: "dataPoints w = Some (GoMap [(''first'', [example_point 30])])" by blast
  have "ReplaceAllDataSeries w (Some long)
          = Return (w, Some (LimitExceeded ''long'' 120 121))
      \<and> dataPoints w = Some (GoMap [(''first'', [example_point 30])])
      \<and> (\<exists>e'. ReplaceAllDataSeries w0 (Some none) = Return (w0, Some e'))
      \<and> (\<exists>e'. ReplaceAllDataSeries w (Some none) = Return (w, Some e'))"
    by (intro conjI h1 d c2 c3)
  then show ?thesis unfolding w_def w0_def long_def none_def .
qed

subsection \<open>Setters and getters\<close>

text \<open>
  C8. Each label setter and each toggle setter makes its getter return the value set,
  leaves the data map as it is, and changes no other field: putting the old value of
  the one field back gives the widget before the call.
\<close>

theorem setters_set_one_field:
  "GetTitle (SetTitle w s) = s
     \<and> dataPoints (SetTitle w s) = dataPoints w
     \<and> (SetTitle w s)\<lparr>TopCenteredLabel := TopCenteredLabel w\<rparr> = w
   \<and> GetTopLeftLabel (SetTopLeftLabel w s) = s
     \<and> dataPoints (SetTopLeftLabel w s) = dataPoints w
     \<and> (SetTopLeftLabel w s)\<lparr>TopLeftLabel := TopLeftLabel w\<rparr> = w
   \<and> GetTopRightLabel (SetTopRightLabel w s) = s
     \<and> dataPoints (SetTopRightLabel w s) = dataPoints w
     \<and> (SetTopRightLabel w s)\<lparr>TopRightLabel := TopRightLabel w\<rparr> = w
   \<and> GetMiddleLeftLabel (SetMiddleLeftLabel w s) = s
     \<and> dataPoints (SetMiddleLeftLabel w s) = dataPoints w
     \<and> (SetMiddleLeftLabel w s)\<lparr>LeftMiddleLabel := LeftMiddleLabel w\<rparr> = w
   \<and> GetMiddleRightLabel (SetMiddleRightLabel w s) = s
     \<and> dataPoints (SetMiddleRightLabel w s) = dataPoints w
     \<and> (SetMiddleRightLabel w s)\<lparr>RightMiddleLabel := RightMiddleLabel w\<rparr> = w
   \<and> GetBottomLeftLabel (SetBottomLeftLabel w s) = s
     \<and> dataPoints (SetBottomLeftLabel w s) = dataPoints w
     \<and> (SetBottomLeftLabel w s)\<lparr>BottomLeftLabel := BottomLeftLabel w\<rparr> = w
   \<and> GetBottomCenteredLabel (SetBottomCenteredLabel w s) = s
     \<and> dataPoints (SetBottomCenteredLabel w s) = dataPoints w
     \<and> (SetBottomCenteredLabel w s)\<lparr>BottomCenteredLabel := BottomCenteredLabel w\<rparr> = w
   \<and> GetBottomRightLabel (SetBottomRightLabel w s) = s
     \<and> dataPoints (SetBottomRightLabel w s) = dataPoints w
     \<and> (SetBottomRightLabel w s)\<lparr>BottomRightLabel := BottomRightLabel w\<rparr> = w
   \<and> IsDataPointMarkersEnabled (SetDataPointMarkers w b) = b
     \<and> dataPoints (SetDataPointMarkers w b) = dataPoints w
     \<and> (SetDataPointMarkers w b)\<lparr>EnableDataPointMarkers := EnableDataPointMarkers w\<rparr> = w
   \<and> IsHorizGridLinesEnabled (SetHorizGridLines w b) = b
     \<and> dataPoints (SetHorizGridLines w b) = dataPoints w
     \<and> (SetHorizGridLines w b)\<lparr>EnableHorizGridLines := EnableHorizGridLines w\<rparr> = w
   \<and> IsVertGridLinesEnabled (SetVertGridLines w b) = b
     \<and> dataPoints (SetVertGridLines w b) = dataPoints w
     \<and> (SetVertGridLines w b)\<lparr>EnableVertGridLines := EnableVertGridLines w\<rparr> = w
   \<and> IsMousePointDisplayEnabled (SetMousePointDisplay w b) = b
     \<and> dataPoints (SetMousePointDisplay w b) = dataPoints w
     \<and> (SetMousePointDisplay w b)\<lparr>EnableMousePointDisplay := EnableMousePointDisplay w\<rparr> = w"
  by (simp add: GetTitle_def SetTitle_def GetTopLeftLabel_def SetTopLeftLabel_def
      GetTopRightLabel_def SetTopRightLabel_def GetMiddleLeftLabel_def SetMiddleLeftLabel_def
      GetMiddleRightLabel_def SetMiddleRightLabel_def GetBottomLeftLabel_def
      SetBottomLeftLabel_def GetBottomCenteredLabel_def SetBottomCenteredLabel_def
      GetBottomRightLabel_def SetBottomRightLabel_def IsDataPointMarkersEnabled_def
      SetDataPointMarkers_def IsHorizGridLinesEnabled_def SetHorizGridLines_def
      IsVertGridLinesEnabled_def SetVertGridLines_def IsMousePointDisplayEnabled_def
      SetMousePointDisplay_def)

subsection \<open>Mouse buttons\<close>

text \<open>
  C9. A press of the secondary button inverts \<open>EnableDataPointMarkers\<close> and changes
  nothing else; a press of the primary button inverts \<open>EnableMousePointDisplay\<close> and
  changes nothing else; so neither touches the other flag or the data. Two presses of
  one button, whichever it is, give back the widget before the first.
\<close>

theorem MouseDown_toggles:
  "MouseDown w (me\<lparr>Button := MouseButtonSecondary\<rparr>)
     = w\<lparr>EnableDataPointMarkers := \<not> EnableDataPointMarkers w\<rparr>
   \<and> EnableMousePointDisplay (MouseDown w (me\<lparr>Button := MouseButtonSecondary\<rparr>))
       = EnableMousePointDisplay w
   \<and> dataPoints (MouseDown w (me\<lparr>Button := MouseButtonSecondary\<rparr>)) = dataPoints w
   \<and> MouseDown w (me\<lparr>Button := MouseButtonPrimary\<rparr>)
     = w\<lparr>EnableMousePointDisplay := \<not> EnableMousePointDisplay w\<rparr>
   \<and> EnableDataPointMarkers (MouseDown w (me\<lparr>Button := MouseButtonPrimary\<rparr>))
       = EnableDataPointMarkers w
   \<and> dataPoints (MouseDown w (me\<lparr>Button := MouseButtonPrimary\<rparr>)) = dataPoints w
   \<and> MouseDown (MouseDown w me) me = w"
  by (cases "Button me") (simp_all add: MouseDown_def)

subsection \<open>The tooltip\<close>

lemma enableMouseContainer_absorb:
  "enableMouseContainer tk (enableMouseContainer tk w a b c) a' b' c'
   = enableMouseContainer tk w a' b' c'"
  by (simp add: enableMouseContainer_def Let_def)

lemma MouseMoved_points_result:
  "MouseMoved_points tk me key idx points w = w
   \<or> (\<exists>i < length points. mouseOver (EvPosition me) (points ! i)
        \<and> MouseMoved_points tk me key idx points w
          = enableMouseContainer tk w (mouseValue tk key (idx + i) (points ! i))
              (ColorName (points ! i)) (EvPosition me))"
proof (induction points arbitrary: idx w)
  case Nil
  show ?case by simp
next
  case (Cons point rest)
  let ?w1 = "if mouseOver (EvPosition me) point then
          enableMouseContainer tk w (mouseValue tk key idx point) (ColorName point)
            (EvPosition me)
        else w"
  let ?res = "MouseMoved_points tk me key idx (point # rest) w"
  have r: "?res = MouseMoved_points tk me key (Suc idx) rest ?w1" by simp
  from Cons.IH [of "Suc idx" ?w1]
  consider (same) "?res = ?w1"
    | (hit) i where "i < length rest" "mouseOver (EvPosition me) (rest ! i)"
        "?res = enableMouseContainer tk ?w1 (mouseValue tk key (Suc idx + i) (rest ! i))
                  (ColorName (rest ! i)) (EvPosition me)"
    unfolding r by blast
  then show ?case
  proof cases
    case same
    show ?thesis
    proof (cases "mouseOver (EvPosition me) point")
      case True
      with same have "0 < length (point # rest) \<and> mouseOver (EvPosition me) ((point # rest) ! 0)
        \<and> ?res = enableMouseContainer tk w (mouseValue tk key (idx + 0) ((point # rest) ! 0))
              (ColorName ((point # rest) ! 0)) (EvPosition me)"
        by simp
      then show ?thesis by blast
    next
      case False
      with same show ?thesis by simp
    qed
  next
    case hit
    from hit(3) have "?res = enableMouseContainer tk w
        (mouseValue tk key (idx + Suc i) ((point # rest) ! Suc i))
        (ColorName ((point # rest) ! Suc i)) (EvPosition me)"
      by (simp add: enableMouseContainer_absorb)
    moreover from hit(1,2) have "Suc i < length (point # rest)"
      "mouseOver (EvPosition me) ((point # rest) ! Suc i)"
      by simp_all
    ultimately show ?thesis by blast
  qed
qed

lemma MouseMoved_fold_result:
  "fold (\<lambda>(key, points). MouseMoved_points tk me key 0 points) kvs w = w
   \<or> (\<exists>(key, points) \<in> set kvs. \<exists>i < length points.
        mouseOver (EvPosition me) (points ! i)
        \<and> fold (\<lambda>(key, points). MouseMoved_points tk me key 0 points) kvs w
          = enableMouseContainer tk w (mouseValue tk key i (points ! i))
              (ColorName (points ! i)) (EvPosition me))"
proof (induction kvs arbitrary: w)
  case Nil
  show ?case by simp
next
  case (Cons kv kvs)
  obtain key points where kv: "kv = (key, points)" by (cases kv)
  let ?f = "\<lambda>(key, points). MouseMoved_points tk me key 0 points"
  let ?w1 = "MouseMoved_points tk me key 0 points w"
  let ?res = "fold ?f (kv # kvs) w"
  have r: "?res = fold ?f kvs ?w1" by (simp add: kv)
  from MouseMoved_points_result [of tk me key 0 points w]
  consider (same1) "?w1 = w"
    | (hit1) i where "i < length points" "mouseOver (EvPosition me) (points ! i)"
        "?w1 = enableMouseContainer tk w (mouseValue tk key i (points ! i))
                  (ColorName (points ! i)) (EvPosition me)"
    by auto
  then show ?case
  proof cases
    case same1
    from Cons.IH [of w] show ?thesis unfolding r same1 by auto
  next
    case hit1
    from Cons.IH [of ?w1]
    consider (same2) "?res = ?w1"
      | (hit2) k ps j where "(k, ps) \<in> set kvs" "j < length ps"
          "mouseOver (EvPosition me) (ps ! j)"
          "?res = enableMouseContainer tk ?w1 (mouseValue tk k j (ps ! j))
                    (ColorName (ps ! j)) (EvPosition me)"
      unfolding r by blast
    then show ?thesis
    proof cases
      case same2
      with hit1 have "(key, points) \<in> set (kv # kvs) \<and> i < length points
        \<and> mouseOver (EvPosition me) (points ! i)
        \<and> ?res = enableMouseContainer tk w (mouseValue tk key i (points ! i))
              (ColorName (points ! i)) (EvPosition me)"
        by (simp add: kv)
      then show ?thesis by blast
    next
      case hit2
      from hit2(4) have "?res = enableMouseContainer tk w (mouseValue tk k j (ps ! j))
                    (ColorName (ps ! j)) (EvPosition me)"
        unfolding hit1(3) by (simp add: enableMouseContainer_absorb)
      with hit2(1-3) have "(k, ps) \<in> set (kv # kvs) \<and> j < length ps
        \<and> mouseOver (EvPosition me) (ps ! j)
        \<and> ?res = enableMouseContainer tk w (mouseValue tk k j (ps ! j))
              (ColorName (ps ! j)) (EvPosition me)"
        by simp
      then show ?thesis by blast
    qed
  qed
qed

lemma mouseOver_bounds:
  "mouseOver pos point \<longleftrightarrow>
     \<not> IsZero pos \<and> \<not> IsZero (MarkerTop point)
     \<and> X (MarkerTop point) \<le> X pos \<and> X pos \<le> X (MarkerBottom point)
     \<and> Y (MarkerTop point) \<le> Y pos \<and> Y pos \<le> Y (MarkerBottom point)"
  by (auto simp: mouseOver_def MarkerPosition_def)

text \<open>
  C6. With the mouse-point display disabled, \<open>MouseMoved\<close> returns the widget as it
  was. With it enabled, on a widget with a data map, \<open>MouseMoved\<close> returns, leaves the
  data and the flags alone, and either changes nothing at all or leaves as tooltip text
  the description (series name, index, value, timestamp) of a point of the data whose
  marker bounds hold the cursor: the cursor position and the marker's top corner are not
  zero, and top.X \<le> pos.X \<le> bottom.X and top.Y \<le> pos.Y \<le> bottom.Y.
\<close>

theorem MouseMoved_tooltip:
  "(\<not> EnableMousePointDisplay w \<longrightarrow> MouseMoved tk w me = Return w)
   \<and> (EnableMousePointDisplay w \<and> dataPoints w = Some m \<longrightarrow>
        (\<exists>w'. MouseMoved tk w me = Return w'
           \<and> dataPoints w' = dataPoints w
           \<and> EnableMousePointDisplay w' = EnableMousePointDisplay w
           \<and> EnableDataPointMarkers w' = EnableDataPointMarkers w
           \<and> (w' = w
              \<or> (\<exists>(key, points) \<in> set (entries m). \<exists>idx < length points.
                    mouseDisplayStr w' = mouseValue tk key idx (points ! idx)
                  \<and> mouseDisplayFrameColor w' = ColorName (points ! idx)
                  \<and> \<not> IsZero (EvPosition me) \<and> \<not> IsZero (MarkerTop (points ! idx))
                  \<and> X (MarkerTop (points ! idx)) \<le> X (EvPosition me)
                  \<and> X (EvPosition me) \<le> X (MarkerBottom (points ! idx))
                  \<and> Y (MarkerTop (points ! idx)) \<le> Y (EvPosition me)
                  \<and> Y (EvPosition me) \<le> Y (MarkerBottom (points ! idx))))))"
proof (intro conjI impI)
  assume "\<not> EnableMousePointDisplay w"
  then show "MouseMoved tk w me = Return w" by (simp add: MouseMoved_def)
next
  assume a: "EnableMousePointDisplay w \<and> dataPoints w = Some m"
  let ?res = "fold (\<lambda>(key, points). MouseMoved_points tk me key 0 points) (entries m) w"
  from a have r: "MouseMoved tk w me = Return ?res" by (simp add: MouseMoved_def)
  from MouseMoved_fold_result [of tk me "entries m" w]
  consider (same) "?res = w"
    | (hit) key points i where "(key, points) \<in> set (entries m)" "i < length points"
        "mouseOver (EvPosition me) (points ! i)"
        "?res = enableMouseContainer tk w (mouseValue tk key i (points ! i))
              (ColorName (points ! i)) (EvPosition me)"
    by blast
  then show "\<exists>w'. MouseMoved tk w me = Return w'
           \<and> dataPoints w' = dataPoints w
           \<and> EnableMousePointDisplay w' = EnableMousePointDisplay w
           \<and> EnableDataPointMarkers w' = EnableDataPointMarkers w
           \<and> (w' = w
              \<or> (\<exists>(key, points) \<in> set (entries m). \<exists>idx < length points.
                    mouseDisplayStr w' = mouseValue tk key idx (points ! idx)
                  \<and> mouseDisplayFrameColor w' = ColorName (points ! idx)
                  \<and> \<not> IsZero (EvPosition me) \<and> \<not> IsZero (MarkerTop (points ! idx))
                  \<and> X (MarkerTop (points ! idx)) \<le> X (EvPosition me)
                  \<and> X (EvPosition me) \<le> X (MarkerBottom (points ! idx))
                  \<and> Y (MarkerTop (points ! idx)) \<le> Y (EvPosition me)
                  \<and> Y (EvPosition me) \<le> Y (MarkerBottom (points ! idx))))"
  proof cases
    case same
    with r show ?thesis by simp
  next
    case hit
    from hit(4) have f: "dataPoints ?res = dataPoints w"
      "EnableMousePointDisplay ?res = EnableMousePointDisplay w"
      "EnableDataPointMarkers ?res = EnableDataPointMarkers w"
      "mouseDisplayStr ?res = mouseValue tk key i (points ! i)"
      "mouseDisplayFrameColor ?res = ColorName (points ! i)"
      by (simp_all add: enableMouseContainer_def Let_def)
    from hit(3) have b: "\<not> IsZero (EvPosition me) \<and> \<not> IsZero (MarkerTop (points ! i))
                  \<and> X (MarkerTop (points ! i)) \<le> X (EvPosition me)
                  \<and> X (EvPosition me) \<le> X (MarkerBottom (points ! i))
                  \<and> Y (MarkerTop (points ! i)) \<le> Y (EvPosition me)
                  \<and> Y (EvPosition me) \<le> Y (MarkerBottom (points ! i))"
      by (simp add: mouseOver_bounds)
    from hit(1,2) f(4,5) b
    have "\<exists>(key, points) \<in> set (entries m). \<exists>idx < length points.
                    mouseDisplayStr ?res = mouseValue tk key idx (points ! idx)
                  \<and> mouseDisplayFrameColor ?res = ColorName (points ! idx)
                  \<and> \<not> IsZero (EvPosition me) \<and> \<not> IsZero (MarkerTop (points ! idx))
                  \<and> X (MarkerTop (points ! idx)) \<le> X (EvPosition me)
                  \<and> X (EvPosition me) \<le> X (MarkerBottom (points ! idx))
                  \<and> Y (MarkerTop (points ! idx)) \<le> Y (EvPosition me)
                  \<and> Y (EvPosition me) \<le> Y (MarkerBottom (points ! idx))"
      by blast
    with r f(1-3) show ?thesis by blast
  qed
qed

lemma Itoa_examples: "Itoa 0 = ''0''" "Itoa 62 = ''62''"
  by code_simp+

lemma example_tooltip:
  "mouseValue example_toolkit ''first'' 0 example_marked_point
   = '' Series: first, Index: 0, Value: 62 [ 2023-02-11T10:00:00Z ]''"
  by (simp add: mouseValue_def example_toolkit_def example_marked_point_def example_point_def
      Itoa_examples float32_numeral)

lemma example_hover:
  "MouseMoved example_toolkit example_hover_chart example_event
   = Return (example_hover_chart
       \<lparr>mouseDisplayStr := '' Series: first, Index: 0, Value: 62 [ 2023-02-11T10:00:00Z ]'',
        mouseDisplayFrameColor := ''yellow'',
        mouseDisplayPosition := Some (NewPos (Fin (- 114)) (Fin (- 24)))\<rparr>)"
  by (simp add: MouseMoved_def example_hover_chart_def example_chart_def mouseOver_def MarkerPosition_def IsZero_def
      example_event_def NewPos_def enableMouseContainer_def example_tooltip Let_def)
     (simp add: example_marked_point_def example_point_def NewPos_def example_toolkit_def
        NewSize_def float32_simps)

theorem MouseMoved_tooltip_witness:
  "\<not> EnableMousePointDisplay (SetMousePointDisplay example_hover_chart False)
   \<and> MouseMoved example_toolkit (SetMousePointDisplay example_hover_chart False) example_event
       = Return (SetMousePointDisplay example_hover_chart False)
   \<and> EnableMousePointDisplay example_hover_chart
   \<and> dataPoints example_hover_chart = Some (GoMap [(''first'', [example_marked_point])])
   \<and> (\<exists>w'. MouseMoved example_toolkit example_hover_chart example_event = Return w'
         \<and> dataPoints w' = dataPoints example_hover_chart
         \<and> mouseDisplayStr w'
             = '' Series: first, Index: 0, Value: 62 [ 2023-02-11T10:00:00Z ]''
         \<and> mouseDisplayStr w' = mouseValue example_toolkit ''first'' 0 example_marked_point
         \<and> X (MarkerTop example_marked_point) \<le> X (EvPosition example_event)
         \<and> X (EvPosition example_event) \<le> X (MarkerBottom example_marked_point)
         \<and> Y (MarkerTop example_marked_point) \<le> Y (EvPosition example_event)
         \<and> Y (EvPosition example_event) \<le> Y (MarkerBottom example_marked_point))"
proof -
  define w where "w = example_hover_chart"
  define w0 where "w0 = SetMousePointDisplay example_hover_chart False"
  define m where "m = GoMap [(''first'', [example_marked_point])]"
  have h1: "\<not> EnableMousePointDisplay w0"
    by (simp add: w0_def SetMousePointDisplay_def)
  have h2: "EnableMousePointDisplay w \<and> dataPoints w = Some m"
    by (simp add: w_def m_def example_hover_chart_def example_chart_def)
  note c1 = MouseMoved_tooltip [where w = w0, THEN conjunct1, THEN mp, OF h1]
  from MouseMoved_tooltip [where w = w and m = m and tk = example_toolkit
      and me = example_event, THEN conjunct2, THEN mp, OF h2]
  obtain w' where r: "MouseMoved example_toolkit w example_event = Return w'"
    "dataPoints w' = dataPoints w" by blast
  from r(1) have e: "w' = w
       \<lparr>mouseDisplayStr := '' Series: first, Index: 0, Value: 62 [ 2023-02-11T10:00:00Z ]'',
        mouseDisplayFrameColor := ''yellow'',
        mouseDisplayPosition := Some (NewPos (Fin (- 114)) (Fin (- 24)))\<rparr>"
    unfolding w_def example_hover by simp
  have s1: "mouseDisplayStr w' = '' Series: first, Index: 0, Value: 62 [ 2023-02-11T10:00:00Z ]''"
    unfolding e by simp
  have s2: "mouseDisplayStr w' = mouseValue example_toolkit ''first'' 0 example_marked_point"
    unfolding s1 example_tooltip ..
  have b: "X (MarkerTop example_marked_point) \<le> X (EvPosition example_event)"
    "X (EvPosition example_event) \<le> X (MarkerBottom example_marked_point)"
    "Y (MarkerTop example_marked_point) \<le> Y (EvPosition example_event)"
    "Y (EvPosition example_event) \<le> Y (MarkerBottom example_marked_point)"
    by (simp_all add: example_marked_point_def example_event_def NewPos_def float32_simps)
  from h2 have h3: "EnableMousePointDisplay w" and h4: "dataPoints w = Some m" by blast+
  have "\<not> EnableMousePointDisplay w0
   \<and> MouseMoved example_toolkit w0 example_event = Return w0
   \<and> EnableMousePointDisplay w
   \<and> dataPoints w = Some m
   \<and> (\<exists>w'. MouseMoved example_toolkit w example_event = Return w'
         \<and> dataPoints w' = dataPoints w
         \<and> mouseDisplayStr w'
             = '' Series: first, Index: 0, Value: 62 [ 2023-02-11T10:00:00Z ]''
         \<and> mouseDisplayStr w' = mouseValue example_toolkit ''first'' 0 example_marked_point
         \<and> X (MarkerTop example_marked_point) \<le> X (EvPosition example_event)
         \<and> X (EvPosition example_event) \<le> X (MarkerBottom example_marked_point)
         \<and> Y (MarkerTop example_marked_point) \<le> Y (EvPosition example_event)
         \<and> Y (EvPosition example_event) \<le> Y (MarkerBottom example_marked_point))"
    by (intro conjI exI [of _ w'] h1 c1 h3 h4 r s1 s2 b)
  then show ?thesis unfolding w_def w0_def m_def .
qed

subsection \<open>The coordinate mapping of Layout\<close>

lemma map_get_map_store:
  "map_get (map_store M k v) k' =
     (if k' = k \<and> map_of (entries M) k \<noteq> None then v else map_get M k')"
  by (cases M) (auto simp: map_get_def map_of_map_entry split: option.splits)

lemma Layout_series_lines:
  assumes "Layout_series tk xp yp xScale yScale hgt idx lastPoint data lines markers
           = Return (data', lines', markers')"
  shows "length lines' = length lines \<and> (data = [] \<or> idx + length data \<le> length lines)
     \<and> (\<forall>j < idx. lines' ! j = lines ! j)
     \<and> (\<forall>i < length data.
          Position1 (lines' ! (idx + i)) =
            NewPos (xp + Fin (real (idx + i)) * xScale)
              (yp - (if Value (data ! i) > hgt then hgt
                     else if Value (data ! i) < 0 then 0
                     else Value (data ! i)) * yScale))"
  using assms
proof (induction data arbitrary: idx lastPoint lines markers data' lines' markers')
  case Nil
  then show ?case by simp
next
  case (Cons point rest)
  let ?dp = "if Value point > hgt then hgt else if Value point < 0 then 0 else Value point"
  let ?tp = "NewPos (xp + Fin (real idx) * xScale) (yp - ?dp * yScale)"
  let ?last = "if idx = 0 then lastPoint\<lparr>Y := yp - ?dp * yScale\<rparr> else lastPoint"
  let ?lines1 = "lines[idx := (lines ! idx)\<lparr>Position1 := ?tp, Position2 := ?last\<rparr>]"
  from Cons.prems have il: "idx < length lines"
    by (auto simp: Let_def split: if_splits)
  from Cons.prems obtain rest1 markers1 where
    rec: "Layout_series tk xp yp xScale yScale hgt (Suc idx) ?tp rest ?lines1 markers1
          = Return (rest1, lines', markers')"
    by (auto simp: Let_def split: if_splits result.splits)
  note ih = Cons.IH [OF rec]
  have len1: "length ?lines1 = length lines" by simp
  show ?case
  proof (intro conjI allI impI)
    show "length lines' = length lines" using ih len1 by simp
    show "point # rest = [] \<or> idx + length (point # rest) \<le> length lines"
      using ih len1 il by (cases rest) auto
  next
    fix j assume "j < idx"
    with ih have "lines' ! j = ?lines1 ! j" by simp
    also from \<open>j < idx\<close> have "\<dots> = lines ! j" by simp
    finally show "lines' ! j = lines ! j" .
  next
    fix i assume i: "i < length (point # rest)"
    show "Position1 (lines' ! (idx + i)) =
            NewPos (xp + Fin (real (idx + i)) * xScale)
              (yp - (if Value ((point # rest) ! i) > hgt then hgt
                     else if Value ((point # rest) ! i) < 0 then 0
                     else Value ((point # rest) ! i)) * yScale)"
    proof (cases i)
      case 0
      from ih have "lines' ! idx = ?lines1 ! idx" by simp
      with il have "Position1 (lines' ! idx) = ?tp" by simp
      with 0 show ?thesis by simp
    next
      case (Suc k)
      with i have "k < length rest" by simp
      with ih have "Position1 (lines' ! (Suc idx + k)) =
            NewPos (xp + Fin (real (Suc idx + k)) * xScale)
              (yp - (if Value (rest ! k) > hgt then hgt
                     else if Value (rest ! k) < 0 then 0
                     else Value (rest ! k)) * yScale)"
        by blast
      with Suc show ?thesis by simp
    qed
  qed
qed

lemma fold_Layout_entry_Panic:
  "fold (Layout_entry tk xp yp xScale yScale) kvs Panic = Panic"
  by (induction kvs) (auto simp: Layout_entry_def)

lemma fold_Layout_entry_lines:
  assumes "fold (Layout_entry tk xp yp xScale yScale) kvs (Return r0) = Return r'"
    and "distinct (map fst kvs)"
  shows "dataPointScale (widget r') = dataPointScale (widget r0)
     \<and> (\<forall>k. k \<notin> fst ` set kvs \<longrightarrow> map_get (dataPoints_r r') k = map_get (dataPoints_r r0) k)
     \<and> (\<forall>(key, data) \<in> set kvs. \<forall>i < length data.
          Position1 (map_get (dataPoints_r r') key ! i) =
            NewPos (xp + Fin (real i) * xScale)
              (yp - (if Value (data ! i) > Height (dataPointScale (widget r0))
                     then Height (dataPointScale (widget r0))
                     else if Value (data ! i) < 0 then 0
                     else Value (data ! i)) * yScale))"
  using assms
proof (induction kvs arbitrary: r0)
  case Nil
  then show ?case by simp
next
  case (Cons kv kvs)
  obtain key data where kv: "kv = (key, data)" by (cases kv)
  let ?hgt = "Height (dataPointScale (widget r0))"
  let ?lines = "map_get (dataPoints_r r0) key"
  from Cons.prems(1) have
    f: "fold (Layout_entry tk xp yp xScale yScale) kvs
          (Layout_entry tk xp yp xScale yScale kv (Return r0)) = Return r'"
    by simp
  then obtain r1 where r1: "Layout_entry tk xp yp xScale yScale kv (Return r0) = Return r1"
    by (cases "Layout_entry tk xp yp xScale yScale kv (Return r0)")
       (simp_all add: fold_Layout_entry_Panic)
  then obtain data1 lines1 markers1 where
    ls: "Layout_series tk xp yp xScale yScale ?hgt 0 (NewPos xp yp) data ?lines
           (map_get (dataPointMarkers r0) key) = Return (data1, lines1, markers1)"
    and r1_lines: "dataPoints_r r1 = map_store (dataPoints_r r0) key lines1"
    and r1_scale: "dataPointScale (widget r1) = dataPointScale (widget r0)"
    by (auto simp: Layout_entry_def kv split: result.splits)
  from Layout_series_lines [OF ls]
  have len: "length lines1 = length ?lines" "data = [] \<or> length data \<le> length ?lines"
    and pos: "\<forall>i < length data.
          Position1 (lines1 ! i) =
            NewPos (xp + Fin (real i) * xScale)
              (yp - (if Value (data ! i) > ?hgt then ?hgt
                     else if Value (data ! i) < 0 then 0
                     else Value (data ! i)) * yScale)"
    by simp_all
  from Cons.prems(2) kv have d: "distinct (map fst kvs)" and nk: "key \<notin> fst ` set kvs"
    by auto
  from f r1 have f1: "fold (Layout_entry tk xp yp xScale yScale) kvs (Return r1) = Return r'"
    by simp
  note ih = Cons.IH [OF f1 d]
  show ?case
  proof (intro conjI allI impI ballI)
    show "dataPointScale (widget r') = dataPointScale (widget r0)"
      using ih r1_scale by simp
  next
    fix k assume "k \<notin> fst ` set (kv # kvs)"
    then have "k \<noteq> key" "k \<notin> fst ` set kvs" by (auto simp: kv)
    with ih have "map_get (dataPoints_r r') k = map_get (dataPoints_r r1) k" by blast
    also from \<open>k \<noteq> key\<close> have "\<dots> = map_get (dataPoints_r r0) k"
      by (simp add: r1_lines map_get_map_store)
    finally show "map_get (dataPoints_r r') k = map_get (dataPoints_r r0) k" .
  next
    fix e assume e: "e \<in> set (kv # kvs)"
    show "case e of (key, data) \<Rightarrow> \<forall>i < length data.
          Position1 (map_get (dataPoints_r r') key ! i) =
            NewPos (xp + Fin (real i) * xScale)
              (yp - (if Value (data ! i) > ?hgt then ?hgt
                     else if Value (data ! i) < 0 then 0
                     else Value (data ! i)) * yScale)"
    proof (cases "e = kv")
      case True
      have "Position1 (map_get (dataPoints_r r') key ! i) =
            NewPos (xp + Fin (real i) * xScale)
              (yp - (if Value (data ! i) > ?hgt then ?hgt
                     else if Value (data ! i) < 0 then 0
                     else Value (data ! i)) * yScale)" if i: "i < length data" for i
      proof -
        from i len have "?lines \<noteq> []" by auto
        then have "map_of (entries (dataPoints_r r0)) key \<noteq> None"
          by (auto simp: map_get_def split: option.splits)
        then have "map_get (dataPoints_r r1) key = lines1"
          by (simp add: r1_lines map_get_map_store)
        moreover from ih nk have "map_get (dataPoints_r r') key = map_get (dataPoints_r r1) key"
          by blast
        ultimately show ?thesis using pos i by simp
      qed
      with True kv show ?thesis by simp
    next
      case False
      with e have "e \<in> set kvs" by simp
      with ih r1_scale show ?thesis by auto
    qed
  qed
qed

text \<open>
  C7, as stated, fails for a value that is NaN: neither test of the clamp holds, the value
  is scaled as it is, and the vertex gets the y-coordinate NaN, which is not between
  \<open>yp - 110 * yScale\<close> and \<open>yp\<close>.
\<close>

theorem Layout_NaN_value_counterexample:
  "Layout example_toolkit example_nan_renderer (NewSize 1404 144) = Return example_nan_layout
   \<and> Value (example_point NaN) = NaN
   \<and> Y (Position1 (map_get (dataPoints_r example_nan_layout) ''first'' ! 0)) = NaN
   \<and> \<not> ((Height (NewSize 1404 144) - Padding example_toolkit) / 14 * 12
          - 110 * (((Height (NewSize 1404 144) - Padding example_toolkit) / 14 * 10) / 100)
        \<le> Y (Position1 (map_get (dataPoints_r example_nan_layout) ''first'' ! 0)))
   \<and> \<not> (Y (Position1 (map_get (dataPoints_r example_nan_layout) ''first'' ! 0))
        \<le> (Height (NewSize 1404 144) - Padding example_toolkit) / 14 * 12)"
proof -
  have l: "Layout example_toolkit example_nan_renderer (NewSize 1404 144)
           = Return example_nan_layout"
    by (simp add: Layout_def Let_def example_nan_renderer_def example_nan_series_def
        example_nan_layout_def example_chart_def Layout_entry_def map_get_def
        example_toolkit_def NewSize_def NewPos_def example_point_def SetMarkerPosition_def
        float32_simps)
  have y: "Y (Position1 (map_get (dataPoints_r example_nan_layout) ''first'' ! 0)) = NaN"
    by (simp add: example_nan_layout_def map_get_def NewPos_def)
  show ?thesis
    unfolding y by (simp add: l example_point_def float32_less_eq)
qed

lemma clamped_vertex_bounds:
  fixes v yi :: real
  assumes "yp = Fin yi * 12" and "yScale = (Fin yi * 10) / 100"
    and "dp = (if Fin v > 110 then 110 else if Fin v < 0 then 0 else Fin v)"
  shows "(0 \<le> yScale \<longrightarrow> yp - 110 * yScale \<le> yp - dp * yScale \<and> yp - dp * yScale \<le> yp)
       \<and> (yScale \<le> 0 \<longrightarrow> yp \<le> yp - dp * yScale \<and> yp - dp * yScale \<le> yp - 110 * yScale)"
proof -
  define c where "c = (if v > 110 then 110 else if v < 0 then 0 else v)"
  define ys where "ys = yi * 10 / 100"
  have dp: "dp = Fin c" by (simp add: assms(3) c_def float32_simps)
  have s: "yScale = Fin ys" by (simp add: assms(2) ys_def float32_simps)
  have p: "yp = Fin (yi * 12)" by (simp add: assms(1) float32_simps)
  have c: "0 \<le> c" "c \<le> 110" by (simp_all add: c_def)
  have m: "0 \<le> ys \<Longrightarrow> c * ys \<le> 110 * ys" "0 \<le> ys \<Longrightarrow> 0 \<le> c * ys"
    "ys \<le> 0 \<Longrightarrow> 110 * ys \<le> c * ys" "ys \<le> 0 \<Longrightarrow> c * ys \<le> 0"
    using c by (simp_all add: mult_right_mono mult_right_mono_neg mult_nonneg_nonpos)
  show ?thesis
    unfolding dp s p using m by (simp add: float32_simps)
qed

text \<open>
  C7, amended. After \<open>Layout\<close>, with the vertical scale \<open>dataPointScale.Height\<close> = 110, the
  vertex of a data point is plotted at \<open>yp - dp * yScale\<close>, where \<open>yp = 12 * yInc\<close>,
  \<open>yScale = yInc * 10 / 100\<close>, and \<open>dp\<close> is 110 for a value above 110, 0 for a negative
  value, and the value itself for a value from 0 to 110. So for every value that is not
  NaN the vertex lies between \<open>yp - 110 * yScale\<close> and \<open>yp\<close>, whichever the sign of
  \<open>yScale\<close>.
\<close>

theorem Layout_clamps_values:
  assumes "Layout tk r s = Return r'"
    and "Height (dataPointScale (widget r)) = 110"
    and "dataPoints (widget r) = Some m" and "distinct_keys m"
    and "yp = (Height s - Padding tk) / 14 * 12"
    and "yScale = ((Height s - Padding tk) / 14 * 10) / 100"
  shows "\<forall>(key, data) \<in> set (entries m). \<forall>idx < length data.
     (Value (data ! idx) > 110 \<longrightarrow>
        Y (Position1 (map_get (dataPoints_r r') key ! idx)) = yp - 110 * yScale)
   \<and> (Value (data ! idx) < 0 \<longrightarrow>
        Y (Position1 (map_get (dataPoints_r r') key ! idx)) = yp - 0 * yScale)
   \<and> (0 \<le> Value (data ! idx) \<and> Value (data ! idx) \<le> 110 \<longrightarrow>
        Y (Position1 (map_get (dataPoints_r r') key ! idx)) = yp - Value (data ! idx) * yScale)
   \<and> (Value (data ! idx) \<noteq> NaN \<and> 0 \<le> yScale \<longrightarrow>
        yp - 110 * yScale \<le> Y (Position1 (map_get (dataPoints_r r') key ! idx))
      \<and> Y (Position1 (map_get (dataPoints_r r') key ! idx)) \<le> yp)
   \<and> (Value (data ! idx) \<noteq> NaN \<and> yScale \<le> 0 \<longrightarrow>
        yp \<le> Y (Position1 (map_get (dataPoints_r r') key ! idx))
      \<and> Y (Position1 (map_get (dataPoints_r r') key ! idx)) \<le> yp - 110 * yScale)"
proof (intro ballI)
  fix e assume e: "e \<in> set (entries m)"
  obtain key data where kd: "e = (key, data)" by (cases e)
  define r1 where
    "r1 = r\<lparr>xInc := (Width s - Padding tk) / 14, yInc := (Height s - Padding tk) / 14\<rparr>"
  define xp where "xp = xInc r1"
  define xScale where "xScale = (xp * 10) / 100"
  have dm: "dataPoints (widget r1) = Some m" by (simp add: r1_def assms(3))
  have y1: "yInc r1 * 12 = yp" by (simp add: r1_def assms(5))
  have y2: "(yInc r1 * 10) / 100 = yScale" by (simp add: r1_def assms(6))
  from assms(1) have
    f: "fold (Layout_entry tk xp yp xScale yScale) (entries m) (Return r1) = Return r'"
    unfolding Layout_def Let_def r1_def [symmetric] dm option.case y1 y2
      xp_def [symmetric] xScale_def [symmetric] .
  from assms(4) have d: "distinct (map fst (entries m))" by (simp add: distinct_keys_def)
  from assms(2) have h: "Height (dataPointScale (widget r1)) = 110" by (simp add: r1_def)
  have p: "Position1 (map_get (dataPoints_r r') key ! i) =
            NewPos (xp + Fin (real i) * xScale)
              (yp - (if Value (data ! i) > 110 then 110
                     else if Value (data ! i) < 0 then 0
                     else Value (data ! i)) * yScale)" if "i < length data" for i
    using fold_Layout_entry_lines [OF f d] e kd that unfolding h by blast
  have "(Value (data ! i) > 110 \<longrightarrow>
        Y (Position1 (map_get (dataPoints_r r') key ! i)) = yp - 110 * yScale)
   \<and> (Value (data ! i) < 0 \<longrightarrow>
        Y (Position1 (map_get (dataPoints_r r') key ! i)) = yp - 0 * yScale)
   \<and> (0 \<le> Value (data ! i) \<and> Value (data ! i) \<le> 110 \<longrightarrow>
        Y (Position1 (map_get (dataPoints_r r') key ! i)) = yp - Value (data ! i) * yScale)
   \<and> (Value (data ! i) \<noteq> NaN \<and> 0 \<le> yScale \<longrightarrow>
        yp - 110 * yScale \<le> Y (Position1 (map_get (dataPoints_r r') key ! i))
      \<and> Y (Position1 (map_get (dataPoints_r r') key ! i)) \<le> yp)
   \<and> (Value (data ! i) \<noteq> NaN \<and> yScale \<le> 0 \<longrightarrow>
        yp \<le> Y (Position1 (map_get (dataPoints_r r') key ! i))
      \<and> Y (Position1 (map_get (dataPoints_r r') key ! i)) \<le> yp - 110 * yScale)"
    if i: "i < length data" for i
  proof -
    let ?v = "Value (data ! i)"
    let ?y = "Y (Position1 (map_get (dataPoints_r r') key ! i))"
    define dp where "dp = (if ?v > 110 then 110 else if ?v < 0 then 0 else ?v)"
    from p [OF i] have y: "?y = yp - dp * yScale"
      by (simp add: NewPos_def dp_def)
    have c1: "?v > 110 \<Longrightarrow> dp = 110" by (simp add: dp_def)
    have c2: "?v < 0 \<Longrightarrow> dp = 0"
      by (cases ?v) (simp_all add: dp_def float32_simps)
    have c3: "0 \<le> ?v \<and> ?v \<le> 110 \<Longrightarrow> dp = ?v"
      by (cases ?v) (auto simp: dp_def float32_simps)
    have b: "(0 \<le> yScale \<longrightarrow> yp - 110 * yScale \<le> ?y \<and> ?y \<le> yp)
           \<and> (yScale \<le> 0 \<longrightarrow> yp \<le> ?y \<and> ?y \<le> yp - 110 * yScale)"
      if nn: "?v \<noteq> NaN"
    proof (cases "yInc r1")
      case NaN
      with y2 have "yScale = NaN" by (simp add: float32_simps)
      then show ?thesis by (simp add: float32_simps)
    next
      case (Fin yi)
      from nn obtain v where v: "?v = Fin v" by (cases ?v) auto
      have "yp = Fin yi * 12" "yScale = (Fin yi * 10) / 100"
        using y1 y2 Fin by simp_all
      moreover have "dp = (if Fin v > 110 then 110 else if Fin v < 0 then 0 else Fin v)"
        by (simp add: dp_def v)
      ultimately show ?thesis
        unfolding y by (rule clamped_vertex_bounds)
    qed
    note b = b [unfolded y]
    show ?thesis
      unfolding y
    proof (intro conjI impI)
      assume "?v > 110"
      then show "yp - dp * yScale = yp - 110 * yScale" by (simp only: c1)
    next
      assume "?v < 0"
      then show "yp - dp * yScale = yp - 0 * yScale" by (simp only: c2)
    next
      assume "0 \<le> ?v \<and> ?v \<le> 110"
      then show "yp - dp * yScale = yp - ?v * yScale" by (simp only: c3)
    next
      assume a: "?v \<noteq> NaN \<and> 0 \<le> yScale"
      with b show "yp - 110 * yScale \<le> yp - dp * yScale" by blast
      from a b show "yp - dp * yScale \<le> yp" by blast
    next
      assume a: "?v \<noteq> NaN \<and> yScale \<le> 0"
      with b show "yp \<le> yp - dp * yScale" by blast
      from a b show "yp - dp * yScale \<le> yp - 110 * yScale" by blast
    qed
  qed
  with kd show "case e of (key, data) \<Rightarrow> \<forall>idx < length data.
     (Value (data ! idx) > 110 \<longrightarrow>
        Y (Position1 (map_get (dataPoints_r r') key ! idx)) = yp - 110 * yScale)
   \<and> (Value (data ! idx) < 0 \<longrightarrow>
        Y (Position1 (map_get (dataPoints_r r') key ! idx)) = yp - 0 * yScale)
   \<and> (0 \<le> Value (data ! idx) \<and> Value (data ! idx) \<le> 110 \<longrightarrow>
        Y (Position1 (map_get (dataPoints_r r') key ! idx)) = yp - Value (data ! idx) * yScale)
   \<and> (Value (data ! idx) \<noteq> NaN \<and> 0 \<le> yScale \<longrightarrow>
        yp - 110 * yScale \<le> Y (Position1 (map_get (dataPoints_r r') key ! idx))
      \<and> Y (Position1 (map_get (dataPoints_r r') key ! idx)) \<le> yp)
   \<and> (Value (data ! idx) \<noteq> NaN \<and> yScale \<le> 0 \<longrightarrow>
        yp \<le> Y (Position1 (map_get (dataPoints_r r') key ! idx))
      \<and> Y (Position1 (map_get (dataPoints_r r') key ! idx)) \<le> yp - 110 * yScale)"
    by simp
qed

lemma example_layout_returns:
  "\<exists>r'. Layout example_toolkit example_renderer (NewSize 1404 144) = Return r'"
  by (simp add: Layout_def Let_def example_renderer_def example_chart_def example_series_def
      example_values_def Layout_entry_def map_get_def example_toolkit_def NewSize_def)

theorem Layout_clamps_values_witness:
  "Height (dataPointScale (widget example_renderer)) = 110
   \<and> dataPoints (widget example_renderer) = Some example_series
   \<and> distinct_keys example_series
   \<and> (''first'', example_values) \<in> set (entries example_series)
   \<and> Value (example_values ! 0) > 110
   \<and> Value (example_values ! 1) < 0
   \<and> 0 \<le> Value (example_values ! 2) \<and> Value (example_values ! 2) \<le> 110
   \<and> Value (example_values ! 2) \<noteq> NaN
   \<and> 0 \<le> ((Height (NewSize 1404 144) - Padding example_toolkit) / 14 * 10) / 100
   \<and> (\<exists>r'. Layout example_toolkit example_renderer (NewSize 1404 144) = Return r'
        \<and> Y (Position1 (map_get (dataPoints_r r') ''first'' ! 0)) = 10
        \<and> Y (Position1 (map_get (dataPoints_r r') ''first'' ! 1)) = 120
        \<and> Y (Position1 (map_get (dataPoints_r r') ''first'' ! 2)) = 58
        \<and> 10 \<le> Y (Position1 (map_get (dataPoints_r r') ''first'' ! 2))
        \<and> Y (Position1 (map_get (dataPoints_r r') ''first'' ! 2)) \<le> 120)"
proof -
  define yp :: float32 where "yp = (Height (NewSize 1404 144) - Padding example_toolkit) / 14 * 12"
  define yScale :: float32 where
    "yScale = ((Height (NewSize 1404 144) - Padding example_toolkit) / 14 * 10) / 100"
  have yp: "yp = 120" and ys: "yScale = 1"
    by (simp_all add: yp_def yScale_def NewSize_def example_toolkit_def float32_simps)
  have h2: "Height (dataPointScale (widget example_renderer)) = 110"
    by (simp add: example_renderer_def example_chart_def)
  have h3: "dataPoints (widget example_renderer) = Some example_series"
    by (simp add: example_renderer_def example_chart_def)
  have h4: "distinct_keys example_series"
    by (simp add: distinct_keys_def example_series_def)
  have i: "(''first'', example_values) \<in> set (entries example_series)"
    by (simp add: example_series_def)
  have l: "0 < length example_values" "1 < length example_values" "2 < length example_values"
    by (simp_all add: example_values_def)
  have v: "Value (example_values ! 0) > 110" "Value (example_values ! 1) < 0"
    "0 \<le> Value (example_values ! 2)" "Value (example_values ! 2) \<le> 110"
    "Value (example_values ! 2) \<noteq> NaN" "Value (example_values ! 2) = 62"
    by (simp_all add: example_values_def example_point_def float32_simps)
  have s: "0 \<le> yScale" by (simp add: ys float32_simps)
  from example_layout_returns obtain r' where
    h1: "Layout example_toolkit example_renderer (NewSize 1404 144) = Return r'" ..
  note T = Layout_clamps_values [OF h1 h2 h3 h4 yp_def yScale_def, THEN bspec, OF i,
      simplified]
  from T l(1) v(1) have y0: "Y (Position1 (map_get (dataPoints_r r') ''first'' ! 0)) = 10"
    by (simp add: yp ys float32_simps)
  from T l(2) v(2) have y1: "Y (Position1 (map_get (dataPoints_r r') ''first'' ! 1)) = 120"
    by (simp add: yp ys float32_simps)
  from T l(3) v(3,4) have y2: "Y (Position1 (map_get (dataPoints_r r') ''first'' ! 2)) = 58"
    by (simp add: yp ys v(6) float32_simps)
  from T l(3) v(5) s
  have b: "yp - 110 * yScale \<le> Y (Position1 (map_get (dataPoints_r r') ''first'' ! 2))"
    "Y (Position1 (map_get (dataPoints_r r') ''first'' ! 2)) \<le> yp"
    by blast+
  have e: "yp - 110 * yScale = 10" by (simp add: yp ys float32_simps)
  note b1 = b(1) [unfolded e] and b2 = b(2) [unfolded yp]
  show ?thesis
    by (intro conjI exI [of _ r'] h1 h2 h3 h4 i v(1-5) s [unfolded yScale_def] y0 y1 y2 b1 b2)
qed

end
